theory Spec2Isabelle
  imports Complex_Main "HOL-Library.AList"
begin

section \<open>Values of a request payload and Python's coercions\<close>

text \<open>
  The handlers of \<^verbatim>\<open>app.py\<close> read their input with \<^verbatim>\<open>request.get_json()\<close> and
  pass the fields through \<^verbatim>\<open>str\<close>, \<^verbatim>\<open>int\<close> and \<^verbatim>\<open>float\<close>. A payload is a JSON
  object, modelled as a map from field names to JSON scalars; a field that is absent is
  \<open>None\<close>, a field that is present with the value \<^verbatim>\<open>null\<close> is \<open>Some JNull\<close>.

  Boundaries of the model. Python floats are idealised as exact rationals: no rounding
  error, no infinities, no NaN (the spellings \<^verbatim>\<open>inf\<close>, \<^verbatim>\<open>infinity\<close> and \<^verbatim>\<open>nan\<close>
  are not read as floats). Strings are ASCII. Field values are JSON scalars, and a column
  holds the scalar it is given: the type coercion of the storage engine is not modelled.
\<close>

datatype jval = JNull | JBool bool | JInt int | JFloat rat | JStr string

type_synonym payload = "string \<rightharpoonup> jval"

datatype pyexn = ValueError | TypeError | AttributeError

text \<open>\<^verbatim>\<open>dict.get(key, default)\<close>\<close>

definition dict_get :: "payload \<Rightarrow> string \<Rightarrow> jval \<Rightarrow> jval" where
  "dict_get data k d = (case data k of None \<Rightarrow> d | Some v \<Rightarrow> v)"

text \<open>Truth value of a scalar, as \<^verbatim>\<open>not x\<close> tests it.\<close>

fun py_truthy :: "jval \<Rightarrow> bool" where
  "py_truthy JNull = False"
| "py_truthy (JBool b) = b"
| "py_truthy (JInt n) = (n \<noteq> 0)"
| "py_truthy (JFloat r) = (r \<noteq> 0)"
| "py_truthy (JStr s) = (s \<noteq> [])"

subsection \<open>Reading numbers from strings\<close>

definition is_space :: "char \<Rightarrow> bool" where
  "is_space c = (c \<in> set [CHR '' '', CHR 0x09, CHR 0x0A, CHR 0x0B, CHR 0x0C, CHR 0x0D,
                            CHR 0x1C, CHR 0x1D, CHR 0x1E, CHR 0x1F])"

definition strip :: "string \<Rightarrow> string" where
  "strip s = rev (dropWhile is_space (rev (dropWhile is_space s)))"

definition is_digit :: "char \<Rightarrow> bool" where
  "is_digit c = (48 \<le> (of_char c :: nat) \<and> (of_char c :: nat) \<le> 57)"

definition digit_val :: "char \<Rightarrow> nat" where
  "digit_val c = of_char c - 48"

text \<open>A single underscore may separate two digits; this drops it.\<close>

definition skip_us :: "string \<Rightarrow> string" where
  "skip_us cs = (case cs of
       u # d # ds \<Rightarrow> if u = CHR ''_'' \<and> is_digit d then d # ds else cs
     | _ \<Rightarrow> cs)"

text \<open>The longest prefix \<^verbatim>\<open>digit (["_"] digit)*\<close>, as its digits, and what follows it.\<close>

function span_digits :: "string \<Rightarrow> string \<times> string" where
  "span_digits [] = ([], [])"
| "span_digits (c # cs) =
     (if is_digit c
      then (case span_digits (skip_us cs) of (a, r) \<Rightarrow> (c # a, r))
      else ([], c # cs))"
  by pat_completeness auto
termination
  by (relation "measure length") (auto simp: skip_us_def split: list.splits)

definition digits_val :: "string \<Rightarrow> nat" where
  "digits_val ds = foldl (\<lambda>acc c. 10 * acc + digit_val c) 0 ds"

definition parse_nat :: "string \<Rightarrow> nat option" where
  "parse_nat s = (case span_digits s of (ds, r) \<Rightarrow>
     if ds \<noteq> [] \<and> r = [] then Some (digits_val ds) else None)"

text \<open>An optional sign, and the rest of the string.\<close>

definition take_sign :: "string \<Rightarrow> bool \<times> string" where
  "take_sign s = (case s of
       [] \<Rightarrow> (False, [])
     | c # r \<Rightarrow> if c = CHR ''-'' then (True, r)
                else if c = CHR ''+'' then (False, r) else (False, c # r))"

text \<open>\<^verbatim>\<open>int(s)\<close> for a string: \<open>None\<close> is ValueError.\<close>

definition py_int_str :: "string \<Rightarrow> int option" where
  "py_int_str s = (case take_sign (strip s) of (neg, r) \<Rightarrow>
     (case parse_nat r of
        None \<Rightarrow> None
      | Some n \<Rightarrow> Some (if neg then - int n else int n)))"

text \<open>
  \<^verbatim>\<open>float(s)\<close> for a string, on the decimal grammar
  \<^verbatim>\<open>[sign] (digits ["." [digits]] | "." digits) [("e" | "E") [sign] digits]\<close>.
\<close>

definition parse_exponent :: "string \<Rightarrow> int option" where
  "parse_exponent s = (case s of
       [] \<Rightarrow> Some 0
     | c # r \<Rightarrow>
         if c = CHR ''e'' \<or> c = CHR ''E''
         then (case take_sign r of (neg, r') \<Rightarrow>
                (case parse_nat r' of
                   None \<Rightarrow> None
                 | Some n \<Rightarrow> Some (if neg then - int n else int n)))
         else None)"

definition pow10 :: "int \<Rightarrow> rat" where
  "pow10 e = (if 0 \<le> e then 10 ^ nat e else 1 / 10 ^ nat (- e))"

definition parse_decimal :: "string \<Rightarrow> rat option" where
  "parse_decimal s = (case span_digits s of (ip, r1) \<Rightarrow>
     (case (case r1 of
              [] \<Rightarrow> (False, [], r1)
            | c # r \<Rightarrow> if c = CHR ''.'' then (case span_digits r of (fp, r2) \<Rightarrow> (True, fp, r2))
                       else (False, [], r1)) of
        (dot, fp, r2) \<Rightarrow>
          if ip = [] \<and> fp = [] then None
          else (case parse_exponent r2 of
                  None \<Rightarrow> None
                | Some e \<Rightarrow>
                    Some ((of_nat (digits_val ip) + of_nat (digits_val fp) / 10 ^ length fp)
                          * pow10 e))))"

definition py_float_str :: "string \<Rightarrow> rat option" where
  "py_float_str s = (case take_sign (strip s) of (neg, r) \<Rightarrow>
     (case parse_decimal r of
        None \<Rightarrow> None
      | Some x \<Rightarrow> Some (if neg then - x else x)))"

subsection \<open>The coercions \<^verbatim>\<open>float\<close>, \<^verbatim>\<open>int\<close> and \<^verbatim>\<open>str\<close>\<close>

fun py_float :: "jval \<Rightarrow> pyexn + rat" where
  "py_float JNull = Inl TypeError"
| "py_float (JBool b) = Inr (if b then 1 else 0)"
| "py_float (JInt n) = Inr (of_int n)"
| "py_float (JFloat r) = Inr r"
| "py_float (JStr s) = (case py_float_str s of None \<Rightarrow> Inl ValueError | Some r \<Rightarrow> Inr r)"

text \<open>\<^verbatim>\<open>int\<close> of a float truncates towards zero.\<close>

definition trunc :: "rat \<Rightarrow> int" where
  "trunc r = (if 0 \<le> r then \<lfloor>r\<rfloor> else \<lceil>r\<rceil>)"

fun py_int :: "jval \<Rightarrow> pyexn + int" where
  "py_int JNull = Inl TypeError"
| "py_int (JBool b) = Inr (if b then 1 else 0)"
| "py_int (JInt n) = Inr n"
| "py_int (JFloat r) = Inr (trunc r)"
| "py_int (JStr s) = (case py_int_str s of None \<Rightarrow> Inl ValueError | Some n \<Rightarrow> Inr n)"

function digits_of :: "nat \<Rightarrow> string" where
  "digits_of n = (if n < 10 then [char_of (48 + n)] else digits_of (n div 10) @ [char_of (48 + n mod 10)])"
  by pat_completeness auto
termination
  by (relation "measure id") simp_all

definition str_of_int :: "int \<Rightarrow> string" where
  "str_of_int i = (if i < 0 then CHR ''-'' # digits_of (nat (- i)) else digits_of (nat i))"

text \<open>
  \<^verbatim>\<open>str(v)\<close>. The text of a float is not spelled out (\<open>None\<close>): it always holds a point,
  an exponent or letters, and the handlers only ever pass it to \<^verbatim>\<open>int\<close>, which raises
  ValueError on it.
\<close>

fun py_str :: "jval \<Rightarrow> string option" where
  "py_str JNull = Some ''None''"
| "py_str (JBool b) = Some (if b then ''True'' else ''False'')"
| "py_str (JInt n) = Some (str_of_int n)"
| "py_str (JFloat r) = None"
| "py_str (JStr s) = Some s"

text \<open>\<^verbatim>\<open>round(x, 2)\<close>: to the nearest hundredth, a tie to the even one.\<close>

definition py_round2 :: "rat \<Rightarrow> rat" where
  "py_round2 x =
     (let y = x * 100; f = \<lfloor>y\<rfloor>; d = y - of_int f
      in of_int (if d < 1 / 2 then f
                 else if 1 / 2 < d then f + 1
                 else if even f then f else f + 1) / 100)"


section \<open>The database and the session\<close>

text \<open>
  One row of each table, without its primary key: a table is the list of its rows in
  storage order, each with its key. \<^verbatim>\<open>Product.query.get(i)\<close> is \<open>map_of\<close>.
  The users table and the routes that register, log in and log out are left out: of the
  identity, the model keeps what login stored in the session. The product listing, the
  product deletion and the order list are left out as well.
\<close>

record product =
  name :: jval
  description :: jval
  price :: rat
  stock :: int
  category :: jval
  image_url :: jval
  created_at :: nat
  updated_at :: nat

record order =
  user_id :: "int option"
  total_amount :: rat
  status :: string
  shipping_address :: jval
  order_created_at :: nat
  order_updated_at :: nat

record order_item =
  order_id :: int
  product_id :: int
  quantity :: int
  item_price :: rat

record db =
  products :: "(int \<times> product) list"
  orders :: "(int \<times> order) list"
  order_items :: "(int \<times> order_item) list"

text \<open>The key the storage engine gives a new row: one more than the largest in use.\<close>

definition next_id :: "(int \<times> 'a) list \<Rightarrow> int" where
  "next_id tbl = fold max (map fst tbl) 0 + 1"

text \<open>
  The session: the identity \<^verbatim>\<open>session['user_id']\<close> set by login (\<open>None\<close> when the key
  is absent) and the cart \<^verbatim>\<open>session['cart']\<close>, a dict from product-id strings to
  quantities in insertion order (\<open>None\<close> when the key is absent).
\<close>

type_synonym cart = "(string \<times> int) list"

record session =
  s_user_id :: "int option"
  s_cart :: "cart option"

datatype error =
    ValidationError string
  | NotFound
  | Forbidden
  | LoginRedirect
  | InternalError

text \<open>The status code of each failure; an unhandled exception is answered by the 500 handler.\<close>

fun status_code :: "error \<Rightarrow> nat" where
  "status_code (ValidationError msg) = 400"
| "status_code NotFound = 404"
| "status_code Forbidden = 403"
| "status_code LoginRedirect = 302"
| "status_code InternalError = 500"

definition get_cart :: "session \<Rightarrow> cart \<times> session" where
  "get_cart s = (case s_cart s of
       None \<Rightarrow> ([], s\<lparr>s_cart := Some []\<rparr>)
     | Some c \<Rightarrow> (c, s))"

definition save_cart :: "cart \<Rightarrow> session \<Rightarrow> session" where
  "save_cart c s = s\<lparr>s_cart := Some c\<rparr>"

text \<open>The loop of \<^verbatim>\<open>calculate_cart_total\<close>; \<open>None\<close> is the ValueError of \<^verbatim>\<open>int(product_id)\<close>.\<close>

fun cart_total_loop :: "db \<Rightarrow> cart \<Rightarrow> rat \<Rightarrow> rat option" where
  "cart_total_loop d [] tot = Some tot"
| "cart_total_loop d ((pid, qty) # rest) tot =
     (case py_int_str pid of
        None \<Rightarrow> None
      | Some i \<Rightarrow>
          (case map_of (products d) i of
             None \<Rightarrow> cart_total_loop d rest tot
           | Some p \<Rightarrow> cart_total_loop d rest (tot + price p * of_int qty)))"

definition calculate_cart_total :: "db \<Rightarrow> cart \<Rightarrow> rat option" where
  "calculate_cart_total d c = map_option py_round2 (cart_total_loop d c 0)"

section \<open>Products\<close>

text \<open>
  \<^verbatim>\<open>POST /api/products\<close>. \<open>now\<close> is the clock read by the column defaults. The commit
  fails on a NULL in a column declared \<^verbatim>\<open>nullable=False\<close>.
\<close>

definition products_post :: "nat \<Rightarrow> payload \<Rightarrow> db \<Rightarrow> (error + int \<times> product) \<times> db" where
  "products_post now data d =
     (if \<not> (\<forall>field \<in> set [''name'', ''price'', ''category'']. data field \<noteq> None)
      then (Inl (ValidationError ''Missing required fields''), d)
      else
        (case py_float (dict_get data ''price'' JNull) of
           Inl e \<Rightarrow> (Inl InternalError, d)
         | Inr pr \<Rightarrow>
             (case py_int (dict_get data ''stock'' (JInt 0)) of
                Inl e \<Rightarrow> (Inl InternalError, d)
              | Inr st \<Rightarrow>
                  (let p = \<lparr>name = dict_get data ''name'' JNull,
                            description = dict_get data ''description'' JNull,
                            price = pr,
                            stock = st,
                            category = dict_get data ''category'' JNull,
                            image_url = dict_get data ''image_url'' JNull,
                            created_at = now,
                            updated_at = now\<rparr>;
                       i = next_id (products d)
                   in if name p = JNull \<or> category p = JNull
                      then (Inl InternalError, d)
                      else (Inr (i, p), d\<lparr>products := products d @ [(i, p)]\<rparr>)))))"

text \<open>\<^verbatim>\<open>GET /api/products/<id>\<close>\<close>

definition product_get :: "int \<Rightarrow> db \<Rightarrow> error + int \<times> product" where
  "product_get pid d = (case map_of (products d) pid of
       None \<Rightarrow> Inl NotFound
     | Some p \<Rightarrow> Inr (pid, p))"

text \<open>
  \<^verbatim>\<open>PUT /api/products/<id>\<close>. The UPDATE writes NULL into a \<^verbatim>\<open>nullable=False\<close> column
  exactly when the payload gives \<^verbatim>\<open>null\<close> for it.
\<close>

definition product_put :: "nat \<Rightarrow> int \<Rightarrow> payload \<Rightarrow> db \<Rightarrow> (error + int \<times> product) \<times> db" where
  "product_put now pid data d =
     (case map_of (products d) pid of
        None \<Rightarrow> (Inl NotFound, d)
      | Some p \<Rightarrow>
          (case py_float (dict_get data ''price'' (JFloat (price p))) of
             Inl e \<Rightarrow> (Inl InternalError, d)
           | Inr pr \<Rightarrow>
               (case py_int (dict_get data ''stock'' (JInt (stock p))) of
                  Inl e \<Rightarrow> (Inl InternalError, d)
                | Inr st \<Rightarrow>
                    (let p' = p\<lparr>name := dict_get data ''name'' (name p),
                                 description := dict_get data ''description'' (description p),
                                 price := pr,
                                 stock := st,
                                 category := dict_get data ''category'' (category p),
                                 image_url := dict_get data ''image_url'' (image_url p),
                                 updated_at := now\<rparr>
                     in if data ''name'' = Some JNull \<or> data ''category'' = Some JNull
                        then (Inl InternalError, d)
                        else (Inr (pid, p'), d\<lparr>products := AList.update pid p' (products d)\<rparr>)))))"


section \<open>The shopping cart\<close>

record cart_line =
  line_product_id :: string
  line_product_name :: jval
  line_price :: rat
  line_quantity :: int
  line_subtotal :: rat

record cart_view =
  view_items :: "cart_line list"
  view_total :: rat
  view_item_count :: nat

text \<open>The loop of the cart view: an entry whose product is gone adds no line.\<close>

fun cart_lines :: "db \<Rightarrow> cart \<Rightarrow> cart_line list option" where
  "cart_lines d [] = Some []"
| "cart_lines d ((pid, qty) # rest) =
     (case py_int_str pid of
        None \<Rightarrow> None
      | Some i \<Rightarrow>
          (case cart_lines d rest of
             None \<Rightarrow> None
           | Some ls \<Rightarrow>
               (case map_of (products d) i of
                  None \<Rightarrow> Some ls
                | Some p \<Rightarrow>
                    Some (\<lparr>line_product_id = pid,
                           line_product_name = name p,
                           line_price = price p,
                           line_quantity = qty,
                           line_subtotal = price p * of_int qty\<rparr> # ls))))"

text \<open>\<^verbatim>\<open>GET /api/cart\<close>\<close>

definition cart_get :: "db \<Rightarrow> session \<Rightarrow> (error + cart_view) \<times> session" where
  "cart_get d s =
     (case get_cart s of (cart_items, s1) \<Rightarrow>
        (case cart_lines d cart_items of
           None \<Rightarrow> (Inl InternalError, s1)
         | Some cart_data \<Rightarrow>
             (case calculate_cart_total d cart_items of
                None \<Rightarrow> (Inl InternalError, s1)
              | Some t \<Rightarrow>
                  (Inr \<lparr>view_items = cart_data,
                        view_total = t,
                        view_item_count = length cart_items\<rparr>, s1))))"

text \<open>\<^verbatim>\<open>POST /api/cart\<close>: the response carries the cart and its total.\<close>

definition cart_post :: "payload \<Rightarrow> db \<Rightarrow> session \<Rightarrow> (error + cart \<times> rat) \<times> session" where
  "cart_post data d s =
     (case py_str (dict_get data ''product_id'' JNull) of
        None \<Rightarrow> (Inl InternalError, s)
      | Some pid \<Rightarrow>
          (case py_int (dict_get data ''quantity'' (JInt 1)) of
             Inl e \<Rightarrow> (Inl InternalError, s)
           | Inr qty \<Rightarrow>
               (case py_int_str pid of
                  None \<Rightarrow> (Inl InternalError, s)
                | Some i \<Rightarrow>
                    (case map_of (products d) i of
                       None \<Rightarrow> (Inl NotFound, s)
                     | Some p \<Rightarrow>
                         if qty > stock p
                         then (Inl (ValidationError ''Insufficient stock''), s)
                         else
                           (case get_cart s of (cart_items, s1) \<Rightarrow>
                              (let cart_items' =
                                     (case map_of cart_items pid of
                                        Some q0 \<Rightarrow> AList.update pid (q0 + qty) cart_items
                                      | None \<Rightarrow> AList.update pid qty cart_items);
                                   s2 = save_cart cart_items' s1
                               in (case calculate_cart_total d cart_items' of
                                     None \<Rightarrow> (Inl InternalError, s2)
                                   | Some t \<Rightarrow> (Inr (cart_items', t), s2))))))))"

text \<open>\<^verbatim>\<open>DELETE /api/cart?product_id=...\<close>: the argument is a string of the query, or absent.\<close>

definition cart_delete :: "string option \<Rightarrow> db \<Rightarrow> session \<Rightarrow> (error + rat) \<times> session" where
  "cart_delete arg d s =
     (let pid = (case arg of None \<Rightarrow> ''None'' | Some a \<Rightarrow> a)
      in (case get_cart s of (cart_items, s1) \<Rightarrow>
            (let (cart_items', s2) =
                   (if map_of cart_items pid \<noteq> None
                    then (AList.delete pid cart_items, save_cart (AList.delete pid cart_items) s1)
                    else (cart_items, s1))
             in (case calculate_cart_total d cart_items' of
                   None \<Rightarrow> (Inl InternalError, s2)
                 | Some t \<Rightarrow> (Inr t, s2)))))"

text \<open>\<^verbatim>\<open>PUT /api/cart/update\<close>\<close>

definition update_cart :: "payload \<Rightarrow> db \<Rightarrow> session \<Rightarrow> (error + rat) \<times> session" where
  "update_cart data d s =
     (case py_str (dict_get data ''product_id'' JNull) of
        None \<Rightarrow> (Inl InternalError, s)
      | Some pid \<Rightarrow>
          (case py_int (dict_get data ''quantity'' (JInt 1)) of
             Inl e \<Rightarrow> (Inl InternalError, s)
           | Inr qty \<Rightarrow>
               (case get_cart s of (cart_items, s1) \<Rightarrow>
                  if map_of cart_items pid = None then (Inl NotFound, s1)
                  else
                    (case (if qty \<le> 0 then Inr (AList.delete pid cart_items)
                           else (case py_int_str pid of
                                   None \<Rightarrow> Inl InternalError
                                 | Some i \<Rightarrow>
                                     (case map_of (products d) i of
                                        None \<Rightarrow> Inl NotFound
                                      | Some p \<Rightarrow>
                                          if qty > stock p
                                          then Inl (ValidationError ''Insufficient stock'')
                                          else Inr (AList.update pid qty cart_items)))) of
                       Inl e \<Rightarrow> (Inl e, s1)
                     | Inr cart_items' \<Rightarrow>
                         (let s2 = save_cart cart_items' s1
                          in (case calculate_cart_total d cart_items' of
                                None \<Rightarrow> (Inl InternalError, s2)
                              | Some t \<Rightarrow> (Inr t, s2)))))))"

text \<open>\<^verbatim>\<open>POST /api/cart/clear\<close>\<close>

definition clear_cart :: "session \<Rightarrow> session" where
  "clear_cart s = s\<lparr>s_cart := Some []\<rparr>"

section \<open>Checkout and orders\<close>

text \<open>The first loop of checkout: the first entry that fails decides the answer.\<close>

fun check_stock :: "db \<Rightarrow> cart \<Rightarrow> error option" where
  "check_stock d [] = None"
| "check_stock d ((pid, qty) # rest) =
     (case py_int_str pid of
        None \<Rightarrow> Some InternalError
      | Some i \<Rightarrow>
          (case map_of (products d) i of
             None \<Rightarrow> Some (ValidationError (''Insufficient stock for product '' @ pid))
           | Some p \<Rightarrow>
               if qty > stock p
               then Some (ValidationError (''Insufficient stock for product '' @ pid))
               else check_stock d rest))"

text \<open>
  The second loop of checkout, on the state of the open transaction: one line item per
  cart entry, at the product's current price, and the stock decrement.
\<close>

fun create_order_items :: "int \<Rightarrow> cart \<Rightarrow> db \<Rightarrow> pyexn + db" where
  "create_order_items oid [] tx = Inr tx"
| "create_order_items oid ((pid, qty) # rest) tx =
     (case py_int_str pid of
        None \<Rightarrow> Inl ValueError
      | Some i \<Rightarrow>
          (case map_of (products tx) i of
             None \<Rightarrow> Inl AttributeError
           | Some p \<Rightarrow>
               create_order_items oid rest
                 (tx\<lparr>products := AList.update i (p\<lparr>stock := stock p - qty\<rparr>) (products tx),
                     order_items := order_items tx @
                       [(next_id (order_items tx),
                         \<lparr>order_id = oid, product_id = i, quantity = qty,
                          item_price = price p\<rparr>)]\<rparr>)))"

record order_line =
  ol_product_id :: int
  ol_product_name :: jval
  ol_quantity :: int
  ol_price :: rat

text \<open>\<^verbatim>\<open>order.items\<close>, and their rendering, which reads \<^verbatim>\<open>item.product.name\<close>.\<close>

definition items_of :: "db \<Rightarrow> int \<Rightarrow> order_item list" where
  "items_of d oid = filter (\<lambda>it. order_id it = oid) (map snd (order_items d))"

fun order_lines :: "db \<Rightarrow> order_item list \<Rightarrow> order_line list option" where
  "order_lines d [] = Some []"
| "order_lines d (it # rest) =
     (case map_of (products d) (product_id it) of
        None \<Rightarrow> None
      | Some p \<Rightarrow>
          (case order_lines d rest of
             None \<Rightarrow> None
           | Some ls \<Rightarrow>
               Some (\<lparr>ol_product_id = product_id it, ol_product_name = name p,
                      ol_quantity = quantity it, ol_price = item_price it\<rparr> # ls)))"

text \<open>
  The body of \<^verbatim>\<open>POST /api/checkout\<close>. Rows are written to the open transaction and reach
  the database at \<^verbatim>\<open>db.session.commit()\<close> only: a request that raises before it leaves
  the database as it was. The response is built after the commit.
\<close>

definition checkout_body ::
  "nat \<Rightarrow> payload \<Rightarrow> db \<Rightarrow> session \<Rightarrow> (error + int \<times> order \<times> order_line list) \<times> session \<times> db" where
  "checkout_body now data d s =
     (case get_cart s of (cart_items, s1) \<Rightarrow>
        if cart_items = [] then (Inl (ValidationError ''Cart is empty''), s1, d)
        else
          (let address = dict_get data ''shipping_address'' JNull
           in if \<not> py_truthy address
              then (Inl (ValidationError ''Shipping address is required''), s1, d)
              else
                (case check_stock d cart_items of
                   Some e \<Rightarrow> (Inl e, s1, d)
                 | None \<Rightarrow>
                     (case calculate_cart_total d cart_items of
                        None \<Rightarrow> (Inl InternalError, s1, d)
                      | Some t \<Rightarrow>
                          (let ord = \<lparr>user_id = s_user_id s1,
                                      total_amount = t,
                                      status = ''completed'',
                                      shipping_address = address,
                                      order_created_at = now,
                                      order_updated_at = now\<rparr>;
                               oid = next_id (orders d);
                               tx = d\<lparr>orders := orders d @ [(oid, ord)]\<rparr>
                           in (case create_order_items oid cart_items tx of
                                 Inl e \<Rightarrow> (Inl InternalError, s1, d)
                               | Inr tx' \<Rightarrow>
                                   (case order_lines tx' (items_of tx' oid) of
                                      None \<Rightarrow> (Inl InternalError, s1\<lparr>s_cart := Some []\<rparr>, tx')
                                    | Some ls \<Rightarrow>
                                        (Inr (oid, ord, ls), s1\<lparr>s_cart := Some []\<rparr>, tx'))))))))"

text \<open>\<^verbatim>\<open>@login_required\<close>: without an identity the request is redirected to the login page.\<close>

definition checkout ::
  "nat \<Rightarrow> payload \<Rightarrow> db \<Rightarrow> session \<Rightarrow> (error + int \<times> order \<times> order_line list) \<times> session \<times> db" where
  "checkout now data d s =
     (if s_user_id s = None then (Inl LoginRedirect, s, d) else checkout_body now data d s)"

text \<open>\<^verbatim>\<open>GET /api/orders/<id>\<close>\<close>

definition get_order_detail_body :: "int \<Rightarrow> db \<Rightarrow> session \<Rightarrow> error + int \<times> order \<times> order_line list" where
  "get_order_detail_body oid d s =
     (case map_of (orders d) oid of
        None \<Rightarrow> Inl NotFound
      | Some ord \<Rightarrow>
          if user_id ord \<noteq> s_user_id s then Inl Forbidden
          else (case order_lines d (items_of d oid) of
                  None \<Rightarrow> Inl InternalError
                | Some ls \<Rightarrow> Inr (oid, ord, ls)))"

definition get_order_detail :: "int \<Rightarrow> db \<Rightarrow> session \<Rightarrow> error + int \<times> order \<times> order_line list" where
  "get_order_detail oid d s =
     (if s_user_id s = None then Inl LoginRedirect else get_order_detail_body oid d s)"


section \<open>Notions used to state the properties\<close>

text \<open>Every key of the cart reads as an integer, as the keys stored by the cart routes do.\<close>

definition cart_keys_ok :: "cart \<Rightarrow> bool" where
  "cart_keys_ok c = list_all (\<lambda>e. py_int_str (fst e) \<noteq> None) c"

text \<open>
  The foreign keys of \<^verbatim>\<open>order_items\<close>: every line item belongs to an order of the table
  and names a product of the table.
\<close>

definition refs_ok :: "db \<Rightarrow> bool" where
  "refs_ok d = list_all (\<lambda>r. map_of (products d) (product_id (snd r)) \<noteq> None \<and>
                              map_of (orders d) (order_id (snd r)) \<noteq> None) (order_items d)"

text \<open>The product a cart entry names, if it is in the table.\<close>

definition entry_product :: "db \<Rightarrow> string \<Rightarrow> product option" where
  "entry_product d pid = (case py_int_str pid of None \<Rightarrow> None | Some i \<Rightarrow> map_of (products d) i)"

text \<open>A cart entry the stock cannot serve: its product is gone, or has less than the quantity.\<close>

definition entry_short :: "db \<Rightarrow> string \<times> int \<Rightarrow> bool" where
  "entry_short d e = (case entry_product d (fst e) of None \<Rightarrow> True | Some p \<Rightarrow> snd e > stock p)"

text \<open>Price times quantity of a cart entry; nothing for an entry whose product is gone.\<close>

definition entry_amount :: "db \<Rightarrow> string \<times> int \<Rightarrow> rat" where
  "entry_amount d e = (case entry_product d (fst e) of None \<Rightarrow> 0 | Some p \<Rightarrow> price p * of_int (snd e))"

text \<open>The line item of a cart entry, for the order \<open>oid\<close>, at the prices of \<open>d\<close>.\<close>

definition entry_item :: "db \<Rightarrow> int \<Rightarrow> string \<times> int \<Rightarrow> order_item" where
  "entry_item d oid e =
     \<lparr>order_id = oid,
      product_id = (case py_int_str (fst e) of None \<Rightarrow> 0 | Some i \<Rightarrow> i),
      quantity = snd e,
      item_price = (case entry_product d (fst e) of None \<Rightarrow> 0 | Some p \<Rightarrow> price p)\<rparr>"

text \<open>The quantity a cart asks of product \<open>i\<close>, over all its entries.\<close>

definition ordered_qty :: "cart \<Rightarrow> int \<Rightarrow> int" where
  "ordered_qty c i = sum_list (map snd (filter (\<lambda>e. py_int_str (fst e) = Some i) c))"

definition stock_nonneg :: "db \<Rightarrow> bool" where
  "stock_nonneg d = list_all (\<lambda>r. 0 \<le> stock (snd r)) (products d)"

text \<open>The order row a checkout writes.\<close>

definition placed_order :: "nat \<Rightarrow> payload \<Rightarrow> db \<Rightarrow> session \<Rightarrow> order" where
  "placed_order now data d s =
     \<lparr>user_id = s_user_id s,
      total_amount = py_round2 (sum_list (map (entry_amount d) (fst (get_cart s)))),
      status = ''completed'',
      shipping_address = dict_get data ''shipping_address'' JNull,
      order_created_at = now,
      order_updated_at = now\<rparr>"

text \<open>
  All the rows of a checkout are in \<open>d'\<close>: the order, one line item per cart entry in
  the order of the cart, and for every product the decrement by what the cart asks of it.
\<close>

definition checkout_persisted :: "nat \<Rightarrow> payload \<Rightarrow> session \<Rightarrow> db \<Rightarrow> db \<Rightarrow> bool" where
  "checkout_persisted now data s d d' =
     (orders d' = orders d @ [(next_id (orders d), placed_order now data d s)] \<and>
      map snd (order_items d')
        = map snd (order_items d) @ map (entry_item d (next_id (orders d))) (fst (get_cart s)) \<and>
      (\<forall>j. map_of (products d') j
             = map_option (\<lambda>p. p\<lparr>stock := stock p - ordered_qty (fst (get_cart s)) j\<rparr>)
                 (map_of (products d) j)))"

subsection \<open>Sample data\<close>

text \<open>The rows \<^verbatim>\<open>init_db\<close> puts into an empty database, created at time 0.\<close>

definition sample_product :: "string \<Rightarrow> string \<Rightarrow> rat \<Rightarrow> int \<Rightarrow> string \<Rightarrow> product" where
  "sample_product n descr pr st cat =
     \<lparr>name = JStr n, description = JStr descr, price = pr, stock = st, category = JStr cat,
      image_url = JNull, created_at = 0, updated_at = 0\<rparr>"

definition init_db :: db where
  "init_db =
     \<lparr>products =
        [(1, sample_product ''Laptop'' ''High-performance laptop'' (99999 / 100) 10 ''Electronics''),
         (2, sample_product ''Smartphone'' ''Latest smartphone model'' (69999 / 100) 20 ''Electronics''),
         (3, sample_product ''Headphones'' ''Wireless headphones'' (19999 / 100) 30 ''Electronics''),
         (4, sample_product ''T-Shirt'' ''Cotton t-shirt'' (2999 / 100) 50 ''Clothing''),
         (5, sample_product ''Jeans'' ''Denim jeans'' (7999 / 100) 25 ''Clothing''),
         (6, sample_product ''Running Shoes'' ''Sports running shoes'' (14999 / 100) 15 ''Footwear'')],
      orders = [],
      order_items = []\<rparr>"

text \<open>A database with one order of user 1: two laptops, shipped to 123 Main St.\<close>

definition shop_db :: db where
  "shop_db =
     \<lparr>products =
        [(1, sample_product ''Laptop'' ''High-performance laptop'' (99999 / 100) 8 ''Electronics''),
         (2, sample_product ''Smartphone'' ''Latest smartphone model'' (69999 / 100) 20 ''Electronics'')],
      orders =
        [(1, \<lparr>user_id = Some 1, total_amount = 199998 / 100, status = ''completed'',
               shipping_address = JStr ''123 Main St'', order_created_at = 5,
               order_updated_at = 5\<rparr>)],
      order_items =
        [(1, \<lparr>order_id = 1, product_id = 1, quantity = 2, item_price = 99999 / 100\<rparr>)]\<rparr>"

text \<open>A database whose one product costs a tenth of a cent.\<close>

definition penny_db :: db where
  "penny_db =
     \<lparr>products = [(1, sample_product ''Washer'' ''Steel washer'' (1 / 1000) 500 ''Hardware'')],
      orders = [],
      order_items = []\<rparr>"


section \<open>Properties of the catalog\<close>

text \<open>
  C8, as the code has it. A create call without \<^verbatim>\<open>name\<close>, \<^verbatim>\<open>price\<close> or \<^verbatim>\<open>category\<close>
  is answered with the validation error (400). When the three are present and the
  coercion of the price or of the stock raises, nothing catches the exception: the call
  ends in the internal error (500), and in both cases no product is stored.
\<close>

theorem products_post_failures:
  "(data ''name'' = None \<or> data ''price'' = None \<or> data ''category'' = None \<longrightarrow>
      products_post now data d = (Inl (ValidationError ''Missing required fields''), d)) \<and>
   (data ''name'' \<noteq> None \<and> data ''price'' \<noteq> None \<and> data ''category'' \<noteq> None \<and>
    (py_float (dict_get data ''price'' JNull) = Inl e1 \<or>
     py_int (dict_get data ''stock'' (JInt 0)) = Inl e2) \<longrightarrow>
      products_post now data d = (Inl InternalError, d))"
  by (auto simp: products_post_def split: sum.splits)

theorem products_post_failures_witness:
  "products_post 3 [''name'' \<mapsto> JStr ''Pen'', ''price'' \<mapsto> JInt 2] init_db
     = (Inl (ValidationError ''Missing required fields''), init_db) \<and>
   products_post 3
     [''name'' \<mapsto> JStr ''Pen'', ''price'' \<mapsto> JStr ''abc'', ''category'' \<mapsto> JStr ''Office''] init_db
     = (Inl InternalError, init_db)"
proof -
  have a: "py_float (dict_get [''name'' \<mapsto> JStr ''Pen'', ''price'' \<mapsto> JStr ''abc'',
             ''category'' \<mapsto> JStr ''Office''] ''price'' JNull) = Inl ValueError"
    by (simp add: dict_get_def) code_simp
  show ?thesis
    using products_post_failures [where data = "[''name'' \<mapsto> JStr ''Pen'', ''price'' \<mapsto> JInt 2]"
        and now = 3 and d = init_db]
      products_post_failures [where data = "[''name'' \<mapsto> JStr ''Pen'', ''price'' \<mapsto> JStr ''abc'',
        ''category'' \<mapsto> JStr ''Office'']" and ?e1.0 = ValueError and now = 3 and d = init_db] a
    by simp
qed

text \<open>
  C8 as stated fails: a price that is not a number is answered with status 500, not with
  the validation error.
\<close>

theorem products_post_nonnumeric_counterexample:
  "fst (products_post 3
          [''name'' \<mapsto> JStr ''Pen'', ''price'' \<mapsto> JStr ''abc'', ''category'' \<mapsto> JStr ''Office'']
          init_db) = Inl InternalError \<and>
   status_code InternalError = 500"
  by code_simp

text \<open>
  C9. An update of an absent id is NotFound. An update that supplies only a price \<open>v\<close>
  which reads as the number \<open>x\<close> stores \<open>x\<close>, refreshes \<^verbatim>\<open>updated_at\<close> and changes
  no other field, and a later read returns that row. In every update that succeeds, a
  field the payload does not supply keeps its value, \<^verbatim>\<open>updated_at\<close> is the time of the
  call, and no other product changes.
\<close>

theorem product_put_partial:
  "(map_of (products d) pid = None \<longrightarrow> product_put now pid data d = (Inl NotFound, d)) \<and>
   (map_of (products d) pid = Some p \<and> py_float v = Inr x \<longrightarrow>
      product_put now pid [''price'' \<mapsto> v] d
        = (Inr (pid, p\<lparr>price := x, updated_at := now\<rparr>),
           d\<lparr>products := AList.update pid (p\<lparr>price := x, updated_at := now\<rparr>) (products d)\<rparr>) \<and>
      product_get pid (snd (product_put now pid [''price'' \<mapsto> v] d))
        = Inr (pid, p\<lparr>price := x, updated_at := now\<rparr>)) \<and>
   (map_of (products d) pid = Some p \<and> product_put now pid data d = (Inr (i, p'), d') \<longrightarrow>
      (data ''name'' = None \<longrightarrow> name p' = name p) \<and>
      (data ''description'' = None \<longrightarrow> description p' = description p) \<and>
      (data ''price'' = None \<longrightarrow> price p' = price p) \<and>
      (data ''stock'' = None \<longrightarrow> stock p' = stock p) \<and>
      (data ''category'' = None \<longrightarrow> category p' = category p) \<and>
      (data ''image_url'' = None \<longrightarrow> image_url p' = image_url p) \<and>
      created_at p' = created_at p \<and> updated_at p' = now \<and>
      product_get pid d' = Inr (pid, p') \<and>
      (\<forall>j. j \<noteq> pid \<longrightarrow> product_get j d' = product_get j d))"
  by (auto simp: product_put_def product_get_def dict_get_def update_conv' Let_def
           split: sum.splits if_splits)

theorem product_put_partial_witness:
  "product_put 9 42 [''price'' \<mapsto> JInt 5] init_db = (Inl NotFound, init_db) \<and>
   product_get 1 (snd (product_put 9 1 [''price'' \<mapsto> JStr ''899.99''] init_db))
     = Inr (1, (sample_product ''Laptop'' ''High-performance laptop'' (99999 / 100) 10 ''Electronics'')
                 \<lparr>price := 89999 / 100, updated_at := 9\<rparr>) \<and>
   product_get 2 (snd (product_put 9 1 [''stock'' \<mapsto> JInt 7] init_db)) = product_get 2 init_db \<and>
   product_get 1 (snd (product_put 9 1 [''stock'' \<mapsto> JInt 7] init_db))
     = Inr (1, (sample_product ''Laptop'' ''High-performance laptop'' (99999 / 100) 10 ''Electronics'')
                 \<lparr>stock := 7, updated_at := 9\<rparr>)"
proof -
  let ?p = "sample_product ''Laptop'' ''High-performance laptop'' (99999 / 100) 10 ''Electronics''"
  have g: "map_of (products init_db) 1 = Some ?p" "map_of (products init_db) 42 = None"
    by (simp_all add: init_db_def)
  have f: "py_float (JStr ''899.99'') = Inr (89999 / 100)"
    by code_simp
  have u: "product_put 9 1 [''stock'' \<mapsto> JInt 7] init_db
      = (Inr (1, ?p\<lparr>stock := 7, updated_at := 9\<rparr>), snd (product_put 9 1 [''stock'' \<mapsto> JInt 7] init_db))"
    by (simp add: product_put_def g dict_get_def sample_product_def Let_def)
  have n: "product_put 9 42 [''price'' \<mapsto> JInt 5] init_db = (Inl NotFound, init_db)"
    using product_put_partial [where d = init_db and pid = 42 and now = 9
        and data = "[''price'' \<mapsto> JInt 5]"] g
    by simp
  have a: "product_get 1 (snd (product_put 9 1 [''price'' \<mapsto> JStr ''899.99''] init_db))
      = Inr (1, ?p\<lparr>price := 89999 / 100, updated_at := 9\<rparr>)"
    using product_put_partial [where d = init_db and pid = 1 and now = 9 and p = ?p
        and v = "JStr ''899.99''" and x = "89999 / 100"] g f
    by blast
  have b: "product_get 1 (snd (product_put 9 1 [''stock'' \<mapsto> JInt 7] init_db))
      = Inr (1, ?p\<lparr>stock := 7, updated_at := 9\<rparr>) \<and>
     product_get 2 (snd (product_put 9 1 [''stock'' \<mapsto> JInt 7] init_db)) = product_get 2 init_db"
    using product_put_partial [where d = init_db and pid = 1 and now = 9 and p = ?p
        and data = "[''stock'' \<mapsto> JInt 7]"
        and i = 1 and p' = "?p\<lparr>stock := 7, updated_at := 9\<rparr>"
        and d' = "snd (product_put 9 1 [''stock'' \<mapsto> JInt 7] init_db)"] g u
    by simp
  from n a b show ?thesis
    by blast
qed

section \<open>Properties of the order detail\<close>

lemma order_lines_total:
  "list_all (\<lambda>it. map_of (products d) (product_id it) \<noteq> None) its \<Longrightarrow>
   \<exists>ls. order_lines d its = Some ls \<and> length ls = length its"
  by (induction its) auto

lemma refs_ok_items_of:
  "refs_ok d \<Longrightarrow> list_all (\<lambda>it. map_of (products d) (product_id it) \<noteq> None) (items_of d oid)"
  by (auto simp: refs_ok_def items_of_def list_all_iff)

text \<open>
  C7, as the code has it. A session without an identity is redirected to the login page
  before the order is looked up. Under a session with an identity: an order id that is not
  in the table is NotFound; an order whose owner is not the session's identity (an order
  without owner included) is Forbidden; otherwise the detail is returned, one line per
  line item, when the foreign keys of the line items hold.
\<close>

theorem get_order_detail_cases:
  "(s_user_id s = None \<longrightarrow> get_order_detail oid d s = Inl LoginRedirect) \<and>
   (s_user_id s \<noteq> None \<and> map_of (orders d) oid = None \<longrightarrow>
      get_order_detail oid d s = Inl NotFound) \<and>
   (s_user_id s \<noteq> None \<and> map_of (orders d) oid = Some ord \<and> user_id ord \<noteq> s_user_id s \<longrightarrow>
      get_order_detail oid d s = Inl Forbidden) \<and>
   (s_user_id s \<noteq> None \<and> map_of (orders d) oid = Some ord \<and> user_id ord = s_user_id s \<and>
    refs_ok d \<longrightarrow>
      (\<exists>ls. get_order_detail oid d s = Inr (oid, ord, ls) \<and> length ls = length (items_of d oid)))"
proof -
  have "refs_ok d \<Longrightarrow>
      \<exists>ls. order_lines d (items_of d oid) = Some ls \<and> length ls = length (items_of d oid)"
    by (rule order_lines_total) (rule refs_ok_items_of)
  then show ?thesis
    by (auto simp: get_order_detail_def get_order_detail_body_def)
qed

theorem get_order_detail_cases_witness:
  "get_order_detail 1 shop_db \<lparr>s_user_id = None, s_cart = None\<rparr> = Inl LoginRedirect \<and>
   get_order_detail 7 shop_db \<lparr>s_user_id = Some 1, s_cart = None\<rparr> = Inl NotFound \<and>
   get_order_detail 1 shop_db \<lparr>s_user_id = Some 2, s_cart = None\<rparr> = Inl Forbidden \<and>
   (\<exists>ls. get_order_detail 1 shop_db \<lparr>s_user_id = Some 1, s_cart = None\<rparr>
            = Inr (1, the (map_of (orders shop_db) 1), ls) \<and> length ls = 1)"
proof -
  have r: "refs_ok shop_db"
    by (simp add: refs_ok_def shop_db_def)
  have i: "length (items_of shop_db 1) = 1"
    by (simp add: items_of_def shop_db_def)
  show ?thesis
    using get_order_detail_cases [where s = "\<lparr>s_user_id = None, s_cart = None\<rparr>" and oid = 1
        and d = shop_db]
      get_order_detail_cases [where s = "\<lparr>s_user_id = Some 1, s_cart = None\<rparr>" and oid = 7
        and d = shop_db]
      get_order_detail_cases [where s = "\<lparr>s_user_id = Some 2, s_cart = None\<rparr>" and oid = 1
        and d = shop_db and ord = "the (map_of (orders shop_db) 1)"]
      get_order_detail_cases [where s = "\<lparr>s_user_id = Some 1, s_cart = None\<rparr>" and oid = 1
        and d = shop_db and ord = "the (map_of (orders shop_db) 1)"] r i
    by (simp add: shop_db_def)
qed

text \<open>
  C7 as stated fails where the session has no identity: the order of user 1 exists and its
  owner differs from the session's identity, yet the answer is the redirect (302), not
  Forbidden.
\<close>

theorem get_order_detail_guest_counterexample:
  "map_of (orders shop_db) 1 \<noteq> None \<and>
   user_id (the (map_of (orders shop_db) 1)) \<noteq> s_user_id \<lparr>s_user_id = None, s_cart = None\<rparr> \<and>
   get_order_detail 1 shop_db \<lparr>s_user_id = None, s_cart = None\<rparr> = Inl LoginRedirect \<and>
   status_code LoginRedirect = 302"
  by (simp add: get_order_detail_def shop_db_def)


section \<open>Properties of the cart\<close>

lemma cart_total_loop_sum:
  "cart_keys_ok c \<Longrightarrow> cart_total_loop d c acc = Some (acc + sum_list (map (entry_amount d) c))"
  by (induction c arbitrary: acc)
     (auto simp: cart_keys_ok_def entry_amount_def entry_product_def split: option.splits)

lemma calculate_cart_total_sum:
  "cart_keys_ok c \<Longrightarrow>
   calculate_cart_total d c = Some (py_round2 (sum_list (map (entry_amount d) c)))"
  by (simp add: calculate_cart_total_def cart_total_loop_sum)

lemma cart_keys_ok_update:
  "cart_keys_ok c \<Longrightarrow> py_int_str k \<noteq> None \<Longrightarrow> cart_keys_ok (AList.update k v c)"
  by (induction c) (auto simp: cart_keys_ok_def)

lemma cart_keys_ok_delete:
  "cart_keys_ok c \<Longrightarrow> cart_keys_ok (AList.delete k c)"
  by (induction c) (auto simp: cart_keys_ok_def)

lemma update_absent:
  "map_of c k = None \<Longrightarrow> AList.update k v c = c @ [(k, v)]"
  by (induction c) (auto split: if_splits)

lemma get_cart_pair: "get_cart s = (fst (get_cart s), s\<lparr>s_cart := Some (fst (get_cart s))\<rparr>)"
  by (simp add: get_cart_def split: option.splits)

text \<open>
  C5. For an add-to-cart call whose product id reads as the integer \<open>i\<close> and whose
  quantity reads as \<open>qty\<close>, on a stored cart with readable keys: a product id that is
  not in the table is NotFound; a quantity above the product's stock is the validation
  error; in both cases the session is untouched. Otherwise the call succeeds whatever the
  cart already holds: a key that is in the cart gets the sum of its quantity and \<open>qty\<close>,
  a key that is not gets a new entry at the end. The only comparison with the stock is
  that of \<open>qty\<close>.
\<close>

theorem cart_post_cases:
  assumes "py_str (dict_get data ''product_id'' JNull) = Some pid"
    and "py_int (dict_get data ''quantity'' (JInt 1)) = Inr qty"
    and "py_int_str pid = Some i"
    and "cart_keys_ok (fst (get_cart s))"
  shows "(map_of (products d) i = None \<longrightarrow> cart_post data d s = (Inl NotFound, s)) \<and>
     (\<forall>p. map_of (products d) i = Some p \<and> qty > stock p \<longrightarrow>
        cart_post data d s = (Inl (ValidationError ''Insufficient stock''), s)) \<and>
     (\<forall>p. map_of (products d) i = Some p \<and> qty \<le> stock p \<longrightarrow>
        (let c = fst (get_cart s);
             c' = (case map_of c pid of
                     Some q0 \<Rightarrow> AList.update pid (q0 + qty) c
                   | None \<Rightarrow> c @ [(pid, qty)])
         in cart_post data d s
              = (Inr (c', py_round2 (sum_list (map (entry_amount d) c'))), s\<lparr>s_cart := Some c'\<rparr>) \<and>
            map_of c' = (map_of c)(pid \<mapsto> (case map_of c pid of Some q0 \<Rightarrow> q0 + qty | None \<Rightarrow> qty)) \<and>
            cart_keys_ok c'))"
proof -
  let ?c = "fst (get_cart s)"
  have k: "cart_keys_ok (AList.update pid v ?c)" for v
    using assms(3,4) by (simp add: cart_keys_ok_update)
  have t: "calculate_cart_total d (AList.update pid v ?c)
      = Some (py_round2 (sum_list (map (entry_amount d) (AList.update pid v ?c))))" for v
    by (rule calculate_cart_total_sum) (rule k)
  have a: "map_of ?c pid = None \<Longrightarrow> ?c @ [(pid, v)] = AList.update pid v ?c" for v
    by (simp add: update_absent)
  show ?thesis
    using assms(1-3) k t
    apply (simp add: cart_post_def Let_def save_cart_def)
    apply (subst get_cart_pair)
    apply (auto simp: a update_conv' Let_def split: option.splits)
    done
qed


lemma cart_keys_ok_lookup:
  "cart_keys_ok c \<Longrightarrow> map_of c k = Some q \<Longrightarrow> \<exists>i. py_int_str k = Some i"
  by (induction c) (auto simp: cart_keys_ok_def split: if_splits)

lemma get_cart_present:
  "map_of (fst (get_cart s)) k = Some q \<Longrightarrow> get_cart s = (fst (get_cart s), s)"
  by (cases "s_cart s") (simp_all add: get_cart_def)

theorem cart_post_cases_witness:
  "cart_post [''product_id'' \<mapsto> JInt 42] init_db \<lparr>s_user_id = None, s_cart = Some [(''1'', 9)]\<rparr>
     = (Inl NotFound, \<lparr>s_user_id = None, s_cart = Some [(''1'', 9)]\<rparr>) \<and>
   cart_post [''product_id'' \<mapsto> JInt 1, ''quantity'' \<mapsto> JInt 11] init_db
       \<lparr>s_user_id = None, s_cart = Some [(''1'', 9)]\<rparr>
     = (Inl (ValidationError ''Insufficient stock''), \<lparr>s_user_id = None, s_cart = Some [(''1'', 9)]\<rparr>) \<and>
   s_cart (snd (cart_post [''product_id'' \<mapsto> JInt 1, ''quantity'' \<mapsto> JInt 3] init_db
       \<lparr>s_user_id = None, s_cart = Some [(''1'', 9)]\<rparr>)) = Some [(''1'', 12)] \<and>
   s_cart (snd (cart_post [''product_id'' \<mapsto> JStr ''2''] init_db
       \<lparr>s_user_id = None, s_cart = Some [(''1'', 9)]\<rparr>)) = Some [(''1'', 9), (''2'', 1)]"
proof -
  let ?s = "\<lparr>s_user_id = None, s_cart = Some [(''1'', 9)]\<rparr>"
  have k: "cart_keys_ok (fst (get_cart ?s))"
    by code_simp
  have c: "fst (get_cart ?s) = [(''1'', 9)]"
    by (simp add: get_cart_def)
  have i: "py_int_str ''42'' = Some 42" "py_int_str ''1'' = Some 1" "py_int_str ''2'' = Some 2"
    by code_simp+
  have st: "py_str (JInt 42) = Some ''42''" "py_str (JInt 1) = Some ''1''"
    by code_simp+
  have p: "map_of (products init_db) 42 = None"
    "map_of (products init_db) 1
       = Some (sample_product ''Laptop'' ''High-performance laptop'' (99999 / 100) 10 ''Electronics'')"
    "map_of (products init_db) 2
       = Some (sample_product ''Smartphone'' ''Latest smartphone model'' (69999 / 100) 20 ''Electronics'')"
    by (simp_all add: init_db_def)
  have a: "cart_post [''product_id'' \<mapsto> JInt 42] init_db ?s = (Inl NotFound, ?s)"
    using cart_post_cases [where data = "[''product_id'' \<mapsto> JInt 42]" and pid = "''42''"
        and qty = 1 and i = 42 and s = ?s and d = init_db] k i st p
    by (simp add: dict_get_def)
  have b: "cart_post [''product_id'' \<mapsto> JInt 1, ''quantity'' \<mapsto> JInt 11] init_db ?s
      = (Inl (ValidationError ''Insufficient stock''), ?s)"
    using cart_post_cases [where data = "[''product_id'' \<mapsto> JInt 1, ''quantity'' \<mapsto> JInt 11]"
        and pid = "''1''" and qty = 11 and i = 1 and s = ?s and d = init_db] k i st p
    by (simp add: dict_get_def sample_product_def)
  have e: "s_cart (snd (cart_post [''product_id'' \<mapsto> JInt 1, ''quantity'' \<mapsto> JInt 3] init_db ?s))
      = Some [(''1'', 12)]"
    using cart_post_cases [where data = "[''product_id'' \<mapsto> JInt 1, ''quantity'' \<mapsto> JInt 3]"
        and pid = "''1''" and qty = 3 and i = 1 and s = ?s and d = init_db] k i st p
    by (simp add: dict_get_def sample_product_def c Let_def)
  have f: "s_cart (snd (cart_post [''product_id'' \<mapsto> JStr ''2''] init_db ?s))
      = Some [(''1'', 9), (''2'', 1)]"
    using cart_post_cases [where data = "[''product_id'' \<mapsto> JStr ''2'']"
        and pid = "''2''" and qty = 1 and i = 2 and s = ?s and d = init_db] k i st p
    by (simp add: dict_get_def sample_product_def c Let_def)
  from a b e f show ?thesis
    by blast
qed

text \<open>
  C6, as the code has it. For a cart-update call with a readable payload, on a stored cart
  with readable keys: a key that is not in the cart is NotFound; a key in the cart with a
  quantity of zero or less is removed; with a positive quantity, a product that is no
  longer in the table is NotFound, a quantity above the stock is the validation error,
  both leaving the session untouched; otherwise the quantity of the entry is replaced.
\<close>

theorem update_cart_cases:
  assumes "py_str (dict_get data ''product_id'' JNull) = Some pid"
    and "py_int (dict_get data ''quantity'' (JInt 1)) = Inr qty"
    and "cart_keys_ok (fst (get_cart s))"
  shows "(map_of (fst (get_cart s)) pid = None \<longrightarrow>
            update_cart data d s = (Inl NotFound, snd (get_cart s))) \<and>
     (map_of (fst (get_cart s)) pid \<noteq> None \<and> qty \<le> 0 \<longrightarrow>
        update_cart data d s
          = (Inr (py_round2 (sum_list (map (entry_amount d) (AList.delete pid (fst (get_cart s)))))),
             s\<lparr>s_cart := Some (AList.delete pid (fst (get_cart s)))\<rparr>) \<and>
        map_of (AList.delete pid (fst (get_cart s))) = (map_of (fst (get_cart s)))(pid := None)) \<and>
     (map_of (fst (get_cart s)) pid \<noteq> None \<and> 0 < qty \<and> entry_product d pid = None \<longrightarrow>
        update_cart data d s = (Inl NotFound, s)) \<and>
     (\<forall>p. map_of (fst (get_cart s)) pid \<noteq> None \<and> 0 < qty \<and> entry_product d pid = Some p \<and>
          qty > stock p \<longrightarrow>
        update_cart data d s = (Inl (ValidationError ''Insufficient stock''), s)) \<and>
     (\<forall>p. map_of (fst (get_cart s)) pid \<noteq> None \<and> 0 < qty \<and> entry_product d pid = Some p \<and>
          qty \<le> stock p \<longrightarrow>
        update_cart data d s
          = (Inr (py_round2 (sum_list (map (entry_amount d) (AList.update pid qty (fst (get_cart s)))))),
             s\<lparr>s_cart := Some (AList.update pid qty (fst (get_cart s)))\<rparr>) \<and>
        map_of (AList.update pid qty (fst (get_cart s))) = (map_of (fst (get_cart s)))(pid \<mapsto> qty))"
proof (cases "map_of (fst (get_cart s)) pid")
  case None
  then show ?thesis
    using assms(1,2)
    by (cases "get_cart s") (simp add: update_cart_def)
next
  case (Some q)
  let ?c = "fst (get_cart s)"
  obtain i where i: "py_int_str pid = Some i"
    using cart_keys_ok_lookup [OF assms(3) Some] by blast
  obtain c where g: "get_cart s = (c, s)"
    using get_cart_present [OF Some] by blast
  then have c: "fst (get_cart s) = c"
    by simp
  have t1: "calculate_cart_total d (AList.delete pid ?c)
      = Some (py_round2 (sum_list (map (entry_amount d) (AList.delete pid ?c))))"
    by (rule calculate_cart_total_sum) (rule cart_keys_ok_delete [OF assms(3)])
  have t2: "calculate_cart_total d (AList.update pid qty ?c)
      = Some (py_round2 (sum_list (map (entry_amount d) (AList.update pid qty ?c))))"
    by (rule calculate_cart_total_sum) (simp add: cart_keys_ok_update assms(3) i)
  show ?thesis
    using assms(1,2) Some i t1 t2
    unfolding c
    by (auto simp: update_cart_def Let_def save_cart_def g entry_product_def update_conv'
          delete_conv' split: option.splits)
qed


theorem update_cart_cases_witness:
  "update_cart [''product_id'' \<mapsto> JInt 2, ''quantity'' \<mapsto> JInt 4] init_db
       \<lparr>s_user_id = None, s_cart = Some [(''1'', 9)]\<rparr>
     = (Inl NotFound, \<lparr>s_user_id = None, s_cart = Some [(''1'', 9)]\<rparr>) \<and>
   s_cart (snd (update_cart [''product_id'' \<mapsto> JInt 1, ''quantity'' \<mapsto> JInt 0] init_db
       \<lparr>s_user_id = None, s_cart = Some [(''1'', 9)]\<rparr>)) = Some [] \<and>
   update_cart [''product_id'' \<mapsto> JInt 3, ''quantity'' \<mapsto> JInt 1] shop_db
       \<lparr>s_user_id = None, s_cart = Some [(''3'', 2)]\<rparr>
     = (Inl NotFound, \<lparr>s_user_id = None, s_cart = Some [(''3'', 2)]\<rparr>) \<and>
   update_cart [''product_id'' \<mapsto> JInt 1, ''quantity'' \<mapsto> JInt 11] init_db
       \<lparr>s_user_id = None, s_cart = Some [(''1'', 9)]\<rparr>
     = (Inl (ValidationError ''Insufficient stock''), \<lparr>s_user_id = None, s_cart = Some [(''1'', 9)]\<rparr>) \<and>
   s_cart (snd (update_cart [''product_id'' \<mapsto> JInt 1, ''quantity'' \<mapsto> JInt 4] init_db
       \<lparr>s_user_id = None, s_cart = Some [(''1'', 9)]\<rparr>)) = Some [(''1'', 4)]"
proof -
  let ?s = "\<lparr>s_user_id = None, s_cart = Some [(''1'', 9)]\<rparr>"
  let ?t = "\<lparr>s_user_id = None, s_cart = Some [(''3'', 2)]\<rparr>"
  let ?laptop = "sample_product ''Laptop'' ''High-performance laptop'' (99999 / 100) 10 ''Electronics''"
  have k: "cart_keys_ok (fst (get_cart ?s))" "cart_keys_ok (fst (get_cart ?t))"
    by code_simp+
  have c: "fst (get_cart ?s) = [(''1'', 9)]" "fst (get_cart ?t) = [(''3'', 2)]"
    "snd (get_cart ?s) = ?s"
    by (simp_all add: get_cart_def)
  have st: "py_str (JInt 1) = Some ''1''" "py_str (JInt 2) = Some ''2''" "py_str (JInt 3) = Some ''3''"
    by code_simp+
  have i: "py_int_str ''1'' = Some 1" "py_int_str ''3'' = Some 3"
    by code_simp+
  have p: "entry_product init_db ''1'' = Some ?laptop" "entry_product shop_db ''3'' = None"
    by (simp_all add: entry_product_def i init_db_def shop_db_def)
  have a: "update_cart [''product_id'' \<mapsto> JInt 2, ''quantity'' \<mapsto> JInt 4] init_db ?s
      = (Inl NotFound, ?s)"
    using update_cart_cases [where data = "[''product_id'' \<mapsto> JInt 2, ''quantity'' \<mapsto> JInt 4]"
        and pid = "''2''" and qty = 4 and s = ?s and d = init_db] k st
    by (simp add: dict_get_def c)
  have b: "s_cart (snd (update_cart [''product_id'' \<mapsto> JInt 1, ''quantity'' \<mapsto> JInt 0] init_db ?s))
      = Some []"
    using update_cart_cases [where data = "[''product_id'' \<mapsto> JInt 1, ''quantity'' \<mapsto> JInt 0]"
        and pid = "''1''" and qty = 0 and s = ?s and d = init_db] k st
    by (simp add: dict_get_def c)
  have e: "update_cart [''product_id'' \<mapsto> JInt 3, ''quantity'' \<mapsto> JInt 1] shop_db ?t
      = (Inl NotFound, ?t)"
    using update_cart_cases [where data = "[''product_id'' \<mapsto> JInt 3, ''quantity'' \<mapsto> JInt 1]"
        and pid = "''3''" and qty = 1 and s = ?t and d = shop_db] k st p
    by (simp add: dict_get_def c)
  have f: "update_cart [''product_id'' \<mapsto> JInt 1, ''quantity'' \<mapsto> JInt 11] init_db ?s
      = (Inl (ValidationError ''Insufficient stock''), ?s)"
    using update_cart_cases [where data = "[''product_id'' \<mapsto> JInt 1, ''quantity'' \<mapsto> JInt 11]"
        and pid = "''1''" and qty = 11 and s = ?s and d = init_db] k st p
    by (simp add: dict_get_def c sample_product_def)
  have g: "s_cart (snd (update_cart [''product_id'' \<mapsto> JInt 1, ''quantity'' \<mapsto> JInt 4] init_db ?s))
      = Some [(''1'', 4)]"
    using update_cart_cases [where data = "[''product_id'' \<mapsto> JInt 1, ''quantity'' \<mapsto> JInt 4]"
        and pid = "''1''" and qty = 4 and s = ?s and d = init_db] k st p
    by (simp add: dict_get_def c sample_product_def)
  from a b e f g show ?thesis
    by blast
qed

text \<open>
  C6 as stated fails on an entry whose product is gone: the key is in the cart, the
  quantity is positive, and the answer is NotFound, neither a validation error nor a
  replacement.
\<close>

theorem update_cart_stale_counterexample:
  "map_of (fst (get_cart \<lparr>s_user_id = None, s_cart = Some [(''3'', 2)]\<rparr>)) ''3'' = Some 2 \<and>
   entry_product shop_db ''3'' = None \<and>
   update_cart [''product_id'' \<mapsto> JInt 3, ''quantity'' \<mapsto> JInt 1] shop_db
       \<lparr>s_user_id = None, s_cart = Some [(''3'', 2)]\<rparr>
     = (Inl NotFound, \<lparr>s_user_id = None, s_cart = Some [(''3'', 2)]\<rparr>)"
  by code_simp

lemma cart_lines_spec:
  "cart_keys_ok c \<Longrightarrow>
   \<exists>ls. cart_lines d c = Some ls \<and>
        map (\<lambda>l. (line_product_id l, line_quantity l)) ls
          = filter (\<lambda>e. entry_product d (fst e) \<noteq> None) c \<and>
        sum_list (map line_subtotal ls) = sum_list (map (entry_amount d) c)"
  by (induction c)
     (auto simp: cart_keys_ok_def entry_product_def entry_amount_def split: option.splits)

text \<open>
  C10. On a stored cart with readable keys the view succeeds; \<^verbatim>\<open>item_count\<close> is the
  number of entries of the stored cart; the lines are the entries whose product is in the
  table, in the order of the cart; the total is the rounded sum of their subtotals; there
  are at most \<^verbatim>\<open>item_count\<close> lines; and the stored cart is the same after the call.
\<close>

theorem cart_get_view:
  assumes "cart_keys_ok (fst (get_cart s))"
  shows "\<exists>v. cart_get d s = (Inr v, snd (get_cart s)) \<and>
     view_item_count v = length (fst (get_cart s)) \<and>
     map (\<lambda>l. (line_product_id l, line_quantity l)) (view_items v)
       = filter (\<lambda>e. entry_product d (fst e) \<noteq> None) (fst (get_cart s)) \<and>
     view_total v = py_round2 (sum_list (map line_subtotal (view_items v))) \<and>
     length (view_items v) \<le> view_item_count v \<and>
     fst (get_cart (snd (cart_get d s))) = fst (get_cart s)"
proof -
  let ?c = "fst (get_cart s)"
  obtain ls where ls: "cart_lines d ?c = Some ls"
    "map (\<lambda>l. (line_product_id l, line_quantity l)) ls
       = filter (\<lambda>e. entry_product d (fst e) \<noteq> None) ?c"
    "sum_list (map line_subtotal ls) = sum_list (map (entry_amount d) ?c)"
    using cart_lines_spec [OF assms] by blast
  have t: "calculate_cart_total d ?c = Some (py_round2 (sum_list (map line_subtotal ls)))"
    using calculate_cart_total_sum [OF assms] ls(3) by simp
  have n: "length ls \<le> length ?c"
  proof -
    have "length ls = length (map (\<lambda>l. (line_product_id l, line_quantity l)) ls)"
      by simp
    also have "\<dots> \<le> length ?c"
      unfolding ls(2) by (rule length_filter_le)
    finally show ?thesis .
  qed
  have g: "fst (get_cart (snd (get_cart s))) = ?c"
    by (simp add: get_cart_def split: option.splits)
  have r: "cart_get d s = (Inr \<lparr>view_items = ls,
      view_total = py_round2 (sum_list (map line_subtotal ls)),
      view_item_count = length ?c\<rparr>, snd (get_cart s))"
    by (cases "get_cart s") (use ls(1) t in \<open>simp add: cart_get_def\<close>)
  show ?thesis
    unfolding r using ls(2) n g by simp
qed

theorem cart_get_view_witness:
  "(\<exists>v. cart_get init_db \<lparr>s_user_id = None, s_cart = Some [(''1'', 2), (''9'', 1)]\<rparr>
          = (Inr v, \<lparr>s_user_id = None, s_cart = Some [(''1'', 2), (''9'', 1)]\<rparr>) \<and>
        view_item_count v = 2 \<and>
        map (\<lambda>l. (line_product_id l, line_quantity l)) (view_items v) = [(''1'', 2)] \<and>
        view_total v = py_round2 (sum_list (map line_subtotal (view_items v))) \<and>
        length (view_items v) < view_item_count v)"
proof -
  let ?s = "\<lparr>s_user_id = None, s_cart = Some [(''1'', 2), (''9'', 1)]\<rparr>"
  have k: "cart_keys_ok (fst (get_cart ?s))"
    by code_simp
  have c: "fst (get_cart ?s) = [(''1'', 2), (''9'', 1)]" "snd (get_cart ?s) = ?s"
    by (simp_all add: get_cart_def)
  have p: "entry_product init_db ''1'' \<noteq> None" "entry_product init_db ''9'' = None"
    by code_simp+
  obtain v where v: "cart_get init_db ?s = (Inr v, ?s)" "view_item_count v = 2"
    "map (\<lambda>l. (line_product_id l, line_quantity l)) (view_items v) = [(''1'', 2)]"
    "view_total v = py_round2 (sum_list (map line_subtotal (view_items v)))"
    using cart_get_view [OF k, of init_db] c p by auto
  have "length (map (\<lambda>l. (line_product_id l, line_quantity l)) (view_items v)) = 1"
    unfolding v(3) by simp
  then have "length (view_items v) < view_item_count v"
    using v(2) by simp
  with v show ?thesis
    by (intro exI [of _ v]) simp
qed


section \<open>Properties of checkout\<close>

lemma fold_max_ge: "(a::int) \<le> fold max xs a"
  by (induction xs arbitrary: a) (auto intro: order_trans [OF max.cobounded2])

lemma fold_max_mem: "(x::int) \<in> set xs \<Longrightarrow> x \<le> fold max xs a"
proof (induction xs arbitrary: a)
  case Nil
  then show ?case by simp
next
  case (Cons y ys)
  show ?case
  proof (cases "x = y")
    case True
    have "x \<le> max y a" using True by simp
    also have "\<dots> \<le> fold max ys (max y a)" by (rule fold_max_ge)
    finally show ?thesis by simp
  next
    case False
    then show ?thesis using Cons by simp
  qed
qed

lemma next_id_fresh: "map_of tbl (next_id tbl) = None"
proof -
  have "next_id tbl \<notin> fst ` set tbl"
  proof
    assume "next_id tbl \<in> fst ` set tbl"
    then have "next_id tbl \<in> set (map fst tbl)" by simp
    then have "next_id tbl \<le> fold max (map fst tbl) 0" by (rule fold_max_mem)
    then show False by (simp add: next_id_def)
  qed
  then show ?thesis by (simp add: map_of_eq_None_iff)
qed

lemma refs_ok_next_order: "refs_ok d \<Longrightarrow> items_of d (next_id (orders d)) = []"
  by (auto simp: refs_ok_def items_of_def list_all_iff filter_empty_conv next_id_fresh)

lemma check_stock_None:
  "check_stock d c = None \<longleftrightarrow> cart_keys_ok c \<and> (\<forall>e \<in> set c. \<not> entry_short d e)"
  by (induction c)
     (auto simp: cart_keys_ok_def entry_short_def entry_product_def
           split: option.splits if_splits)

lemma check_stock_find:
  "cart_keys_ok c \<Longrightarrow>
   check_stock d c = (case find (entry_short d) c of
       None \<Rightarrow> None
     | Some e \<Rightarrow> Some (ValidationError (''Insufficient stock for product '' @ fst e)))"
  by (induction c)
     (auto simp: cart_keys_ok_def entry_short_def entry_product_def split: option.splits)

lemma create_order_items_spec:
  "cart_keys_ok c \<Longrightarrow>
   \<forall>e \<in> set c. entry_product tx (fst e) \<noteq> None \<Longrightarrow>
   \<forall>j. map_option price (map_of (products tx) j) = map_option price (map_of (products d0) j) \<Longrightarrow>
   \<exists>tx'. create_order_items oid c tx = Inr tx' \<and>
         orders tx' = orders tx \<and>
         map snd (order_items tx') = map snd (order_items tx) @ map (entry_item d0 oid) c \<and>
         (\<forall>j. map_of (products tx') j
                = map_option (\<lambda>p. p\<lparr>stock := stock p - ordered_qty c j\<rparr>) (map_of (products tx) j))"
proof (induction c arbitrary: tx)
  case Nil
  then show ?case
    by (simp add: ordered_qty_def option.map_ident)
next
  case (Cons e rest)
  obtain pid qty where e: "e = (pid, qty)" by (cases e)
  obtain i where i: "py_int_str pid = Some i"
    using Cons.prems(1) e by (auto simp: cart_keys_ok_def)
  obtain p where p: "map_of (products tx) i = Some p"
    using Cons.prems(2) e i by (auto simp: entry_product_def)
  let ?tx1 = "tx\<lparr>products := AList.update i (p\<lparr>stock := stock p - qty\<rparr>) (products tx),
                order_items := order_items tx @
                  [(next_id (order_items tx),
                    \<lparr>order_id = oid, product_id = i, quantity = qty, item_price = price p\<rparr>)]\<rparr>"
  have m1: "map_of (products ?tx1) j = ((map_of (products tx))(i \<mapsto> p\<lparr>stock := stock p - qty\<rparr>)) j" for j
    by (simp add: update_conv')
  have k: "cart_keys_ok rest"
    using Cons.prems(1) by (simp add: cart_keys_ok_def)
  have ex: "\<forall>e \<in> set rest. entry_product ?tx1 (fst e) \<noteq> None"
    using Cons.prems(2) by (auto simp: entry_product_def update_conv' split: option.splits)
  have pr: "\<forall>j. map_option price (map_of (products ?tx1) j) = map_option price (map_of (products d0) j)"
    using Cons.prems(3) p by (auto simp: update_conv' dest: spec [where x = i])
  obtain tx' where tx': "create_order_items oid rest ?tx1 = Inr tx'"
    "orders tx' = orders ?tx1"
    "map snd (order_items tx') = map snd (order_items ?tx1) @ map (entry_item d0 oid) rest"
    "\<forall>j. map_of (products tx') j
           = map_option (\<lambda>p. p\<lparr>stock := stock p - ordered_qty rest j\<rparr>) (map_of (products ?tx1) j)"
    using Cons.IH [OF k ex pr] by blast
  have it: "entry_item d0 oid e = \<lparr>order_id = oid, product_id = i, quantity = qty, item_price = price p\<rparr>"
    using Cons.prems(3) [rule_format, of i] p e i
    by (auto simp: entry_item_def entry_product_def split: option.splits)
  have r: "create_order_items oid (e # rest) tx = Inr tx'"
    using tx'(1) e i p by simp
  have st: "map_of (products tx') j
      = map_option (\<lambda>p. p\<lparr>stock := stock p - ordered_qty (e # rest) j\<rparr>) (map_of (products tx) j)" for j
    using tx'(4) [rule_format, of j] p e i
    by (auto simp: update_conv' ordered_qty_def algebra_simps)
  show ?case
    using r tx'(2,3) it st by simp
qed


lemma get_cart_nonempty: "fst (get_cart s) \<noteq> [] \<Longrightarrow> get_cart s = (fst (get_cart s), s)"
  by (cases "s_cart s") (simp_all add: get_cart_def)

lemma checkout_rejects:
  assumes "s_user_id s \<noteq> None"
  shows "(fst (get_cart s) = [] \<longrightarrow>
            checkout now data d s = (Inl (ValidationError ''Cart is empty''), snd (get_cart s), d)) \<and>
         (fst (get_cart s) \<noteq> [] \<and> \<not> py_truthy (dict_get data ''shipping_address'' JNull) \<longrightarrow>
            checkout now data d s
              = (Inl (ValidationError ''Shipping address is required''), s, d)) \<and>
         (\<forall>e. fst (get_cart s) \<noteq> [] \<and> py_truthy (dict_get data ''shipping_address'' JNull) \<and>
              check_stock d (fst (get_cart s)) = Some e \<longrightarrow>
            checkout now data d s = (Inl e, s, d))"
proof (cases "fst (get_cart s) = []")
  case True
  then show ?thesis
    using assms by (cases "get_cart s") (simp add: checkout_def checkout_body_def)
next
  case False
  obtain c where g: "get_cart s = (c, s)"
    using get_cart_nonempty [OF False] by blast
  then have c: "fst (get_cart s) = c"
    by simp
  show ?thesis
    using assms False unfolding c
    by (auto simp: checkout_def checkout_body_def g Let_def)
qed

lemma checkout_commits:
  assumes "s_user_id s \<noteq> None" and "fst (get_cart s) \<noteq> []"
    and "py_truthy (dict_get data ''shipping_address'' JNull)"
    and "check_stock d (fst (get_cart s)) = None"
  shows "\<exists>d'. create_order_items (next_id (orders d)) (fst (get_cart s))
             (d\<lparr>orders := orders d @ [(next_id (orders d), placed_order now data d s)]\<rparr>) = Inr d' \<and>
     checkout_persisted now data s d d' \<and>
     checkout now data d s
       = ((case order_lines d' (items_of d' (next_id (orders d))) of
             None \<Rightarrow> Inl InternalError
           | Some ls \<Rightarrow> Inr (next_id (orders d), placed_order now data d s, ls)),
          s\<lparr>s_cart := Some []\<rparr>, d')"
proof -
  let ?c = "fst (get_cart s)"
  let ?oid = "next_id (orders d)"
  let ?ord = "placed_order now data d s"
  let ?tx = "d\<lparr>orders := orders d @ [(?oid, ?ord)]\<rparr>"
  obtain c where g: "get_cart s = (c, s)"
    using get_cart_nonempty [OF assms(2)] by blast
  then have c: "?c = c"
    by simp
  have k: "cart_keys_ok ?c" and sh: "\<forall>e \<in> set ?c. \<not> entry_short d e"
    using assms(4) by (simp_all add: check_stock_None)
  have ex: "\<forall>e \<in> set ?c. entry_product ?tx (fst e) \<noteq> None"
    using sh by (auto simp: entry_short_def entry_product_def split: option.splits)
  have pr: "\<forall>j. map_option price (map_of (products ?tx) j) = map_option price (map_of (products d) j)"
    by simp
  obtain tx' where tx': "create_order_items ?oid ?c ?tx = Inr tx'"
    "orders tx' = orders ?tx"
    "map snd (order_items tx') = map snd (order_items ?tx) @ map (entry_item d ?oid) ?c"
    "\<forall>j. map_of (products tx') j
           = map_option (\<lambda>p. p\<lparr>stock := stock p - ordered_qty ?c j\<rparr>) (map_of (products ?tx) j)"
    using create_order_items_spec [OF k ex pr] by blast
  have t: "calculate_cart_total d ?c = Some (py_round2 (sum_list (map (entry_amount d) ?c)))"
    by (rule calculate_cart_total_sum) (rule k)
  have p: "checkout_persisted now data s d tx'"
    using tx'(2-4) by (simp add: checkout_persisted_def)
  have o: "?ord = \<lparr>user_id = s_user_id s,
      total_amount = py_round2 (sum_list (map (entry_amount d) c)),
      status = ''completed'',
      shipping_address = dict_get data ''shipping_address'' JNull,
      order_created_at = now, order_updated_at = now\<rparr>"
    by (simp add: placed_order_def c)
  have "checkout now data d s
       = ((case order_lines tx' (items_of tx' ?oid) of
             None \<Rightarrow> Inl InternalError
           | Some ls \<Rightarrow> Inr (?oid, ?ord, ls)),
          s\<lparr>s_cart := Some []\<rparr>, tx')"
    using assms tx'(1) t unfolding c o
    by (simp add: checkout_def checkout_body_def g Let_def split: option.splits)
  with p tx'(1) show ?thesis
    by blast
qed

lemma persisted_items_of:
  assumes "checkout_persisted now data s d d'" and "refs_ok d"
  shows "items_of d' (next_id (orders d)) = map (entry_item d (next_id (orders d))) (fst (get_cart s))"
proof -
  have "items_of d' (next_id (orders d))
      = items_of d (next_id (orders d)) @
        filter (\<lambda>it. order_id it = next_id (orders d))
          (map (entry_item d (next_id (orders d))) (fst (get_cart s)))"
    using assms(1) by (simp add: checkout_persisted_def items_of_def)
  also have "filter (\<lambda>it. order_id it = next_id (orders d))
          (map (entry_item d (next_id (orders d))) (fst (get_cart s)))
      = map (entry_item d (next_id (orders d))) (fst (get_cart s))"
    by (simp add: filter_id_conv entry_item_def)
  finally show ?thesis
    using refs_ok_next_order [OF assms(2)] by simp
qed

lemma persisted_order_lines:
  assumes "checkout_persisted now data s d d'" and "refs_ok d"
    and "check_stock d (fst (get_cart s)) = None"
  shows "\<exists>ls. order_lines d' (items_of d' (next_id (orders d))) = Some ls \<and>
              length ls = length (fst (get_cart s))"
proof -
  have "list_all (\<lambda>it. map_of (products d') (product_id it) \<noteq> None)
          (map (entry_item d (next_id (orders d))) (fst (get_cart s)))"
    using assms(1,3)
    by (auto simp: check_stock_None checkout_persisted_def list_all_iff entry_item_def
          entry_short_def entry_product_def cart_keys_ok_def split: option.splits)
  then show ?thesis
    using order_lines_total [of d' "map (entry_item d (next_id (orders d))) (fst (get_cart s))"]
    by (simp add: persisted_items_of [OF assms(1,2)])
qed


lemma set_update_subset: "set (AList.update k v al) \<subseteq> insert (k, v) (set al)"
  by (induction al) auto

lemma create_order_items_nonneg:
  "create_order_items oid c tx = Inr tx' \<Longrightarrow> stock_nonneg tx \<Longrightarrow>
   \<forall>e \<in> set c. \<not> entry_short tx e \<Longrightarrow> distinct (map (py_int_str \<circ> fst) c) \<Longrightarrow>
   stock_nonneg tx'"
proof (induction c arbitrary: tx)
  case Nil
  then show ?case by simp
next
  case (Cons e rest)
  obtain pid qty where e: "e = (pid, qty)" by (cases e)
  obtain i p where i: "py_int_str pid = Some i" and p: "map_of (products tx) i = Some p"
    using Cons.prems(1) e by (auto split: option.splits)
  let ?tx1 = "tx\<lparr>products := AList.update i (p\<lparr>stock := stock p - qty\<rparr>) (products tx),
                order_items := order_items tx @
                  [(next_id (order_items tx),
                    \<lparr>order_id = oid, product_id = i, quantity = qty, item_price = price p\<rparr>)]\<rparr>"
  have q: "qty \<le> stock p"
    using Cons.prems(3) e i p by (simp add: entry_short_def entry_product_def)
  have r: "create_order_items oid rest ?tx1 = Inr tx'"
    using Cons.prems(1) e i p by simp
  have n: "stock_nonneg ?tx1"
    using Cons.prems(2) q set_update_subset [of i "p\<lparr>stock := stock p - qty\<rparr>" "products tx"]
    by (auto simp: stock_nonneg_def list_all_iff)
  have sh: "\<forall>e' \<in> set rest. \<not> entry_short ?tx1 e'"
  proof
    fix e'
    assume m: "e' \<in> set rest"
    then have "py_int_str (fst e') \<noteq> Some i"
      using Cons.prems(4) e i by (auto simp: image_iff)
    moreover have "\<not> entry_short tx e'"
      using Cons.prems(3) m by simp
    ultimately show "\<not> entry_short ?tx1 e'"
      by (auto simp: entry_short_def entry_product_def update_conv' split: option.splits)
  qed
  have di: "distinct (map (py_int_str \<circ> fst) rest)"
    using Cons.prems(4) by (simp only: list.map distinct.simps)
  show ?case
    by (rule Cons.IH [OF r n sh di])
qed

lemma checkout_cases:
  "(\<exists>e. checkout now data d s
            = (Inl e, (if s_user_id s = None then s else snd (get_cart s)), d)) \<or>
   (s_user_id s \<noteq> None \<and> fst (get_cart s) \<noteq> [] \<and>
    check_stock d (fst (get_cart s)) = None \<and>
    (\<exists>d'. create_order_items (next_id (orders d)) (fst (get_cart s))
             (d\<lparr>orders := orders d @ [(next_id (orders d), placed_order now data d s)]\<rparr>) = Inr d' \<and>
          checkout_persisted now data s d d' \<and>
          checkout now data d s
            = ((case order_lines d' (items_of d' (next_id (orders d))) of
                  None \<Rightarrow> Inl InternalError
                | Some ls \<Rightarrow> Inr (next_id (orders d), placed_order now data d s, ls)),
               s\<lparr>s_cart := Some []\<rparr>, d')))"
proof (cases "s_user_id s = None")
  case True
  then show ?thesis
    by (simp add: checkout_def)
next
  case u: False
  show ?thesis
  proof (cases "fst (get_cart s) \<noteq> [] \<and> py_truthy (dict_get data ''shipping_address'' JNull) \<and>
      check_stock d (fst (get_cart s)) = None")
    case True
    then show ?thesis
      using checkout_commits [OF u, of data d now] u by blast
  next
    case False
    have s: "fst (get_cart s) \<noteq> [] \<Longrightarrow> snd (get_cart s) = s"
      using get_cart_nonempty [of s] by (metis snd_conv)
    show ?thesis
      using False checkout_rejects [OF u, of now data d] u s
      by (cases "check_stock d (fst (get_cart s))") auto
  qed
qed




lemma checkout_Inr:
  assumes "checkout now data d s = (Inr (oid, ord, ls), s', d')"
  shows "oid = next_id (orders d) \<and> ord = placed_order now data d s \<and>
         checkout_persisted now data s d d'"
  using checkout_cases [of now data d s] assms
  by (auto split: option.splits)

lemma entry_item_amount:
  "item_price (entry_item d oid e) * of_int (quantity (entry_item d oid e)) = entry_amount d e"
  by (simp add: entry_item_def entry_amount_def split: option.splits)

text \<open>
  C2, as the code has it. After a checkout that succeeds, on a database whose line items
  respect their foreign keys, the order is in the table under the id returned, it has one
  line item per cart entry, and its total is the sum over the cart entries of price times
  quantity at the prices of the database before the call, rounded to two decimals; the
  same number is the rounded sum of price times quantity over the line items of the order.
\<close>

theorem checkout_total:
  assumes "checkout now data d s = (Inr (oid, ord, ls), s', d')" and "refs_ok d"
  shows "map_of (orders d') oid = Some ord \<and>
         length (items_of d' oid) = length (fst (get_cart s)) \<and>
         total_amount ord = py_round2 (sum_list (map (entry_amount d) (fst (get_cart s)))) \<and>
         total_amount ord
           = py_round2 (sum_list (map (\<lambda>it. item_price it * of_int (quantity it)) (items_of d' oid)))"
proof -
  have o: "oid = next_id (orders d)" "ord = placed_order now data d s"
    and p: "checkout_persisted now data s d d'"
    using checkout_Inr [OF assms(1)] by simp_all
  have i: "items_of d' oid = map (entry_item d oid) (fst (get_cart s))"
    unfolding o(1) by (rule persisted_items_of [OF p assms(2)])
  have m: "map_of (orders d') oid = Some ord"
    using p by (simp add: checkout_persisted_def o next_id_fresh map_add_def)
  have t: "total_amount ord = py_round2 (sum_list (map (entry_amount d) (fst (get_cart s))))"
    by (simp add: o(2) placed_order_def)
  have e: "map (\<lambda>it. item_price it * of_int (quantity it)) (items_of d' oid)
      = map (entry_amount d) (fst (get_cart s))"
    by (simp add: i entry_item_amount comp_def)
  have l: "length (items_of d' oid) = length (fst (get_cart s))"
    by (simp add: i)
  show ?thesis
    unfolding e using m t l by simp
qed


theorem checkout_total_witness:
  "fst (checkout 5 [''shipping_address'' \<mapsto> JStr ''123 Main St''] init_db
          \<lparr>s_user_id = Some 1, s_cart = Some [(''1'', 2)]\<rparr>)
     = Inr (1, \<lparr>user_id = Some 1, total_amount = 199998 / 100, status = ''completed'',
                 shipping_address = JStr ''123 Main St'', order_created_at = 5,
                 order_updated_at = 5\<rparr>,
            [\<lparr>ol_product_id = 1, ol_product_name = JStr ''Laptop'', ol_quantity = 2,
               ol_price = 99999 / 100\<rparr>]) \<and>
   py_round2 (sum_list (map (\<lambda>it. item_price it * of_int (quantity it))
      (items_of (snd (snd (checkout 5 [''shipping_address'' \<mapsto> JStr ''123 Main St''] init_db
          \<lparr>s_user_id = Some 1, s_cart = Some [(''1'', 2)]\<rparr>))) 1))) = 199998 / 100 \<and>
   py_round2 (sum_list (map (entry_amount init_db) [(''1'', 2)])) = 199998 / 100"
proof -
  let ?data = "[''shipping_address'' \<mapsto> JStr ''123 Main St'']"
  let ?s = "\<lparr>s_user_id = Some 1, s_cart = Some [(''1'', 2)]\<rparr>"
  let ?ord = "\<lparr>user_id = Some 1, total_amount = 199998 / 100, status = ''completed'',
                 shipping_address = JStr ''123 Main St'', order_created_at = 5,
                 order_updated_at = 5\<rparr>"
  let ?ls = "[\<lparr>ol_product_id = 1, ol_product_name = JStr ''Laptop'', ol_quantity = 2,
               ol_price = 99999 / 100\<rparr>]"
  have r: "fst (checkout 5 ?data init_db ?s) = Inr (1, ?ord, ?ls)"
    by code_simp
  have f: "refs_ok init_db"
    by (simp add: refs_ok_def init_db_def)
  have c: "fst (get_cart ?s) = [(''1'', 2)]"
    by (simp add: get_cart_def)
  have e: "checkout 5 ?data init_db ?s
      = (Inr (1, ?ord, ?ls), fst (snd (checkout 5 ?data init_db ?s)),
         snd (snd (checkout 5 ?data init_db ?s)))"
    using r by (metis prod.collapse)
  show ?thesis
    using checkout_total [OF e f] r c by simp
qed

text \<open>
  C2 as stated fails: the total is rounded, the sum over the line items is not. One washer
  at a tenth of a cent gives an order of total 0 whose line items sum to 1/1000.
\<close>

theorem checkout_total_subcent_counterexample:
  "fst (checkout 5 [''shipping_address'' \<mapsto> JStr ''123 Main St''] penny_db
          \<lparr>s_user_id = Some 1, s_cart = Some [(''1'', 1)]\<rparr>)
     = Inr (1, \<lparr>user_id = Some 1, total_amount = 0, status = ''completed'',
                 shipping_address = JStr ''123 Main St'', order_created_at = 5,
                 order_updated_at = 5\<rparr>,
            [\<lparr>ol_product_id = 1, ol_product_name = JStr ''Washer'', ol_quantity = 1,
               ol_price = 1 / 1000\<rparr>]) \<and>
   sum_list (map (\<lambda>it. item_price it * of_int (quantity it))
      (items_of (snd (snd (checkout 5 [''shipping_address'' \<mapsto> JStr ''123 Main St''] penny_db
          \<lparr>s_user_id = Some 1, s_cart = Some [(''1'', 1)]\<rparr>))) 1)) = 1 / 1000"
  by code_simp


text \<open>
  C3. For a session with an identity, a stored cart with readable keys and a database
  whose line items respect their foreign keys: an empty cart is the validation error
  ``Cart is empty''; otherwise an address that is absent or empty is the validation error
  ``Shipping address is required''; otherwise the first cart entry whose product is gone
  or has less stock than the quantity is the validation error naming it; in these three
  cases the database is unchanged. Otherwise the checkout succeeds, with all its rows in
  the database. So the answer is a validation error exactly when one of the three
  preconditions is violated.
\<close>

theorem checkout_validation:
  assumes "s_user_id s \<noteq> None" and "cart_keys_ok (fst (get_cart s))" and "refs_ok d"
  shows "(fst (get_cart s) = [] \<longrightarrow>
            checkout now data d s = (Inl (ValidationError ''Cart is empty''), snd (get_cart s), d)) \<and>
     (fst (get_cart s) \<noteq> [] \<and> \<not> py_truthy (dict_get data ''shipping_address'' JNull) \<longrightarrow>
        checkout now data d s = (Inl (ValidationError ''Shipping address is required''), s, d)) \<and>
     (\<forall>e. fst (get_cart s) \<noteq> [] \<and> py_truthy (dict_get data ''shipping_address'' JNull) \<and>
          find (entry_short d) (fst (get_cart s)) = Some e \<longrightarrow>
        checkout now data d s
          = (Inl (ValidationError (''Insufficient stock for product '' @ fst e)), s, d)) \<and>
     (fst (get_cart s) \<noteq> [] \<and> py_truthy (dict_get data ''shipping_address'' JNull) \<and>
      find (entry_short d) (fst (get_cart s)) = None \<longrightarrow>
        (\<exists>ls d'. checkout now data d s
                   = (Inr (next_id (orders d), placed_order now data d s, ls),
                      s\<lparr>s_cart := Some []\<rparr>, d') \<and>
                 checkout_persisted now data s d d')) \<and>
     ((\<exists>msg. fst (checkout now data d s) = Inl (ValidationError msg)) \<longleftrightarrow>
        (fst (get_cart s) = [] \<or> \<not> py_truthy (dict_get data ''shipping_address'' JNull) \<or>
         (\<exists>e \<in> set (fst (get_cart s)). entry_short d e)))"
proof -
  let ?c = "fst (get_cart s)"
  let ?a = "py_truthy (dict_get data ''shipping_address'' JNull)"
  note rej = checkout_rejects [OF assms(1), of now data d]
  note cs = check_stock_find [OF assms(2), of d]
  have c1: "?c = [] \<Longrightarrow>
      checkout now data d s = (Inl (ValidationError ''Cart is empty''), snd (get_cart s), d)"
    using rej by blast
  have c2: "?c \<noteq> [] \<Longrightarrow> \<not> ?a \<Longrightarrow>
      checkout now data d s = (Inl (ValidationError ''Shipping address is required''), s, d)"
    using rej by blast
  have c3: "?c \<noteq> [] \<Longrightarrow> ?a \<Longrightarrow> find (entry_short d) ?c = Some e \<Longrightarrow>
      checkout now data d s
        = (Inl (ValidationError (''Insufficient stock for product '' @ fst e)), s, d)" for e
    using rej cs by simp
  have c4: "\<exists>ls d'. checkout now data d s
                   = (Inr (next_id (orders d), placed_order now data d s, ls),
                      s\<lparr>s_cart := Some []\<rparr>, d') \<and>
                 checkout_persisted now data s d d'"
    if n: "?c \<noteq> []" and a: "?a" and f: "find (entry_short d) ?c = None"
  proof -
    have k: "check_stock d ?c = None"
      using cs f by simp
    obtain d' where d': "checkout_persisted now data s d d'"
      "checkout now data d s
         = ((case order_lines d' (items_of d' (next_id (orders d))) of
               None \<Rightarrow> Inl InternalError
             | Some ls \<Rightarrow> Inr (next_id (orders d), placed_order now data d s, ls)),
            s\<lparr>s_cart := Some []\<rparr>, d')"
      using checkout_commits [OF assms(1) n a k, of now] by blast
    obtain ls where "order_lines d' (items_of d' (next_id (orders d))) = Some ls"
      using persisted_order_lines [OF d'(1) assms(3) k] by blast
    with d' show ?thesis
      by simp
  qed
  have c5: "(\<exists>msg. fst (checkout now data d s) = Inl (ValidationError msg)) \<longleftrightarrow>
        (?c = [] \<or> \<not> ?a \<or> (\<exists>e \<in> set ?c. entry_short d e))"
  proof (cases "?c = [] \<or> \<not> ?a")
    case True
    then show ?thesis
      using c1 c2 by (cases "?c = []") auto
  next
    case False
    show ?thesis
    proof (cases "find (entry_short d) ?c")
      case None
      then have "\<not> (\<exists>e \<in> set ?c. entry_short d e)"
        by (auto simp: find_None_iff)
      then show ?thesis
        using c4 False None by auto
    next
      case (Some e)
      then have "\<exists>e \<in> set ?c. entry_short d e"
        by (auto simp: find_Some_iff)
      then show ?thesis
        using c3 [OF _ _ Some] False by auto
    qed
  qed
  from c1 c2 c3 c4 c5 show ?thesis
    by blast
qed


theorem checkout_validation_witness:
  "checkout 5 Map.empty init_db \<lparr>s_user_id = Some 1, s_cart = Some []\<rparr>
     = (Inl (ValidationError ''Cart is empty''), \<lparr>s_user_id = Some 1, s_cart = Some []\<rparr>, init_db) \<and>
   checkout 5 Map.empty init_db \<lparr>s_user_id = Some 1, s_cart = Some [(''4'', 99)]\<rparr>
     = (Inl (ValidationError ''Shipping address is required''),
        \<lparr>s_user_id = Some 1, s_cart = Some [(''4'', 99)]\<rparr>, init_db) \<and>
   checkout 5 [''shipping_address'' \<mapsto> JStr ''123 Main St''] init_db
       \<lparr>s_user_id = Some 1, s_cart = Some [(''1'', 2), (''4'', 99)]\<rparr>
     = (Inl (ValidationError ''Insufficient stock for product 4''),
        \<lparr>s_user_id = Some 1, s_cart = Some [(''1'', 2), (''4'', 99)]\<rparr>, init_db) \<and>
   (\<exists>ls d'. checkout 5 [''shipping_address'' \<mapsto> JStr ''123 Main St''] init_db
               \<lparr>s_user_id = Some 1, s_cart = Some [(''1'', 2), (''4'', 1)]\<rparr>
            = (Inr (1, placed_order 5 [''shipping_address'' \<mapsto> JStr ''123 Main St''] init_db
                      \<lparr>s_user_id = Some 1, s_cart = Some [(''1'', 2), (''4'', 1)]\<rparr>, ls),
               \<lparr>s_user_id = Some 1, s_cart = Some []\<rparr>, d'))"
proof -
  let ?data = "[''shipping_address'' \<mapsto> JStr ''123 Main St'']"
  let ?s0 = "\<lparr>s_user_id = Some 1, s_cart = Some []\<rparr>"
  let ?s1 = "\<lparr>s_user_id = Some 1, s_cart = Some [(''4'', 99)]\<rparr>"
  let ?s2 = "\<lparr>s_user_id = Some 1, s_cart = Some [(''1'', 2), (''4'', 99)]\<rparr>"
  let ?s3 = "\<lparr>s_user_id = Some 1, s_cart = Some [(''1'', 2), (''4'', 1)]\<rparr>"
  have f: "refs_ok init_db"
    by (simp add: refs_ok_def init_db_def)
  have g: "fst (get_cart ?s0) = []" "snd (get_cart ?s0) = ?s0"
    "fst (get_cart ?s1) = [(''4'', 99)]"
    "fst (get_cart ?s2) = [(''1'', 2), (''4'', 99)]"
    "fst (get_cart ?s3) = [(''1'', 2), (''4'', 1)]"
    by (simp_all add: get_cart_def)
  have k: "cart_keys_ok []" "cart_keys_ok [(''4'', 99)]" "cart_keys_ok [(''1'', 2), (''4'', 99)]"
    "cart_keys_ok [(''1'', 2), (''4'', 1)]"
    by code_simp+
  have e: "find (entry_short init_db) [(''1'', 2), (''4'', 99)] = Some (''4'', 99)"
    "find (entry_short init_db) [(''1'', 2), (''4'', 1)] = None"
    by code_simp+
  have n: "next_id (orders init_db) = 1"
    by (simp add: next_id_def init_db_def)
  have a: "checkout 5 Map.empty init_db ?s0 = (Inl (ValidationError ''Cart is empty''), ?s0, init_db)"
    using checkout_validation [where s = ?s0 and d = init_db and now = 5 and data = Map.empty] f g k
    by simp
  have b: "checkout 5 Map.empty init_db ?s1
      = (Inl (ValidationError ''Shipping address is required''), ?s1, init_db)"
    using checkout_validation [where s = ?s1 and d = init_db and now = 5 and data = Map.empty] f g k
    by (simp add: dict_get_def)
  have c: "checkout 5 ?data init_db ?s2
      = (Inl (ValidationError ''Insufficient stock for product 4''), ?s2, init_db)"
    using checkout_validation [where s = ?s2 and d = init_db and now = 5 and data = ?data] f g k e
    by (simp add: dict_get_def)
  have d: "\<exists>ls d'. checkout 5 ?data init_db ?s3
      = (Inr (1, placed_order 5 ?data init_db ?s3, ls), ?s0, d')"
    using checkout_validation [where s = ?s3 and d = init_db and now = 5 and data = ?data] f g k e n
    by (auto simp: dict_get_def)
  from a b c d show ?thesis
    by blast
qed

section \<open>Stock never below zero\<close>

lemma list_all_update:
  "list_all P al \<Longrightarrow> P (k, v) \<Longrightarrow> list_all P (AList.update k v al)"
  by (induction al) auto

text \<open>
  C4, as the code has it. The cart routes return no database: they do not write to the
  product table. A checkout whose cart entries name pairwise distinct products keeps every
  stock non-negative. A create or an update keeps every stock non-negative when the stock
  it is given, if any, is not negative; the value is stored without a check of its sign.
\<close>

theorem stock_nonneg_preserved:
  "(checkout now data d s = (r, s', d') \<and> stock_nonneg d \<and>
    distinct (map (py_int_str \<circ> fst) (fst (get_cart s))) \<longrightarrow> stock_nonneg d') \<and>
   (products_post now data d = (r1, d1) \<and> stock_nonneg d \<and>
    (\<forall>n. py_int (dict_get data ''stock'' (JInt 0)) = Inr n \<longrightarrow> 0 \<le> n) \<longrightarrow> stock_nonneg d1) \<and>
   (product_put now pid data d = (r2, d2) \<and> stock_nonneg d \<and>
    (\<forall>v n. data ''stock'' = Some v \<and> py_int v = Inr n \<longrightarrow> 0 \<le> n) \<longrightarrow> stock_nonneg d2)"
proof (intro conjI impI; elim conjE)
  assume c: "checkout now data d s = (r, s', d')" and n: "stock_nonneg d"
    and di: "distinct (map (py_int_str \<circ> fst) (fst (get_cart s)))"
  let ?tx = "d\<lparr>orders := orders d @ [(next_id (orders d), placed_order now data d s)]\<rparr>"
  from checkout_cases [of now data d s] show "stock_nonneg d'"
  proof (elim disjE exE conjE)
    fix e
    assume "checkout now data d s = (Inl e, (if s_user_id s = None then s else snd (get_cart s)), d)"
    with c n show ?thesis
      by simp
  next
    fix tx'
    assume k: "check_stock d (fst (get_cart s)) = None"
      and t: "create_order_items (next_id (orders d)) (fst (get_cart s)) ?tx = Inr tx'"
      and r: "checkout now data d s
        = ((case order_lines tx' (items_of tx' (next_id (orders d))) of
              None \<Rightarrow> Inl InternalError
            | Some ls \<Rightarrow> Inr (next_id (orders d), placed_order now data d s, ls)),
           s\<lparr>s_cart := Some []\<rparr>, tx')"
    have n': "stock_nonneg ?tx"
      using n by (simp add: stock_nonneg_def)
    have "entry_product ?tx k = entry_product d k" for k
      by (simp add: entry_product_def split: option.splits)
    then have "entry_short ?tx e = entry_short d e" for e
      by (simp add: entry_short_def)
    then have sh: "\<forall>e \<in> set (fst (get_cart s)). \<not> entry_short ?tx e"
      using k by (simp add: check_stock_None)
    have "stock_nonneg tx'"
      by (rule create_order_items_nonneg [OF t n' sh di])
    with c r show ?thesis
      by simp
  qed
next
  assume "products_post now data d = (r1, d1)" and "stock_nonneg d"
    and "\<forall>n. py_int (dict_get data ''stock'' (JInt 0)) = Inr n \<longrightarrow> 0 \<le> n"
  then show "stock_nonneg d1"
    by (auto simp: products_post_def stock_nonneg_def Let_def split: if_splits sum.splits)
next
  assume u: "product_put now pid data d = (r2, d2)" and n: "stock_nonneg d"
    and v: "\<forall>v n. data ''stock'' = Some v \<and> py_int v = Inr n \<longrightarrow> 0 \<le> n"
  show "stock_nonneg d2"
  proof (cases "map_of (products d) pid")
    case None
    then show ?thesis
      using u n by (simp add: product_put_def)
  next
    case (Some p)
    then have "(pid, p) \<in> set (products d)"
      by (rule map_of_SomeD)
    then have p: "0 \<le> stock p"
      using n by (auto simp: stock_nonneg_def list_all_iff)
    have "0 \<le> st" if "py_int (dict_get data ''stock'' (JInt (stock p))) = Inr st" for st
      using that v p by (cases "data ''stock''") (auto simp: dict_get_def)
    then show ?thesis
      using u n Some
      by (auto simp: product_put_def stock_nonneg_def Let_def intro!: list_all_update
            split: if_splits sum.splits)
  qed
qed


theorem stock_nonneg_preserved_witness:
  "stock_nonneg (snd (snd (checkout 5 [''shipping_address'' \<mapsto> JStr ''123 Main St''] init_db
       \<lparr>s_user_id = Some 1, s_cart = Some [(''1'', 10), (''4'', 1)]\<rparr>))) \<and>
   stock_nonneg (snd (products_post 5
       [''name'' \<mapsto> JStr ''Pen'', ''price'' \<mapsto> JFloat (3 / 2), ''category'' \<mapsto> JStr ''Office'',
        ''stock'' \<mapsto> JInt 3] init_db)) \<and>
   stock_nonneg (snd (product_put 5 1 [''stock'' \<mapsto> JInt 0] init_db))"
proof -
  let ?addr = "[''shipping_address'' \<mapsto> JStr ''123 Main St'']"
  let ?s = "\<lparr>s_user_id = Some 1, s_cart = Some [(''1'', 10), (''4'', 1)]\<rparr>"
  let ?new = "[''name'' \<mapsto> JStr ''Pen'', ''price'' \<mapsto> JFloat (3 / 2), ''category'' \<mapsto> JStr ''Office'',
        ''stock'' \<mapsto> JInt 3]"
  let ?upd = "[''stock'' \<mapsto> JInt 0]"
  have n: "stock_nonneg init_db"
    by (simp add: stock_nonneg_def init_db_def sample_product_def)
  have di: "distinct (map (py_int_str \<circ> fst) (fst (get_cart ?s)))"
    by code_simp
  have a: "stock_nonneg (snd (snd (checkout 5 ?addr init_db ?s)))"
    using stock_nonneg_preserved [where now = 5 and data = ?addr and d = init_db and s = ?s
        and r = "fst (checkout 5 ?addr init_db ?s)" and s' = "fst (snd (checkout 5 ?addr init_db ?s))"
        and d' = "snd (snd (checkout 5 ?addr init_db ?s))"] n di
    by simp
  have b: "stock_nonneg (snd (products_post 5 ?new init_db))"
    using stock_nonneg_preserved [where now = 5 and data = ?new and d = init_db
        and ?r1.0 = "fst (products_post 5 ?new init_db)"
        and ?d1.0 = "snd (products_post 5 ?new init_db)"] n
    by (simp add: dict_get_def)
  have c: "stock_nonneg (snd (product_put 5 1 ?upd init_db))"
    using stock_nonneg_preserved [where now = 5 and data = ?upd and d = init_db and pid = 1
        and ?r2.0 = "fst (product_put 5 1 ?upd init_db)"
        and ?d2.0 = "snd (product_put 5 1 ?upd init_db)"] n
    by simp
  from a b c show ?thesis
    by blast
qed

text \<open>
  C4 as stated fails: an update that supplies the stock \<open>-5\<close> stores it.
\<close>

theorem product_put_negative_stock_counterexample:
  "stock_nonneg init_db \<and>
   \<not> stock_nonneg (snd (product_put 5 1 [''stock'' \<mapsto> JInt (- 5)] init_db)) \<and>
   map_option stock (map_of (products (snd (product_put 5 1 [''stock'' \<mapsto> JInt (- 5)] init_db))) 1)
     = Some (- 5)"
  by code_simp

text \<open>
  The hypothesis on the cart entries is needed: the keys \<^verbatim>\<open>"1"\<close> and \<^verbatim>\<open>"01"\<close> name
  the same product, each entry passes the stock check on its own, and both decrements
  are applied.
\<close>

lemma checkout_same_product_twice:
  "stock_nonneg init_db \<and>
   map_option stock (map_of (products (snd (snd (checkout 5
       [''shipping_address'' \<mapsto> JStr ''123 Main St''] init_db
       \<lparr>s_user_id = Some 1, s_cart = Some [(''1'', 6), (''01'', 6)]\<rparr>)))) 1) = Some (- 2)"
  by code_simp

end
